theory Spec2Isabelle
  imports Complex_Main "HOL-Library.AList"
begin

section \<open>Python values\<close>

text \<open>
  A Python \<open>str\<close> is a sequence of Unicode code points, and \<open>len\<close> counts code points, so
  a \<open>str\<close> is modelled as the list of its code points. Program literals that are ASCII are
  written with \<open>str_of\<close>; the Chinese literals of the evaluator are written as code points.
  A Python \<open>float\<close> is modelled as a real number: the arithmetic below is exact, rounding is
  not modelled.
\<close>

type_synonym pystr = "nat list"

definition str_of :: "string \<Rightarrow> pystr" where
  "str_of s = map of_char s"

text \<open>
  The values a message content can hold once it is built by the clients or loaded from a
  saved JSON file: \<open>None\<close>, booleans, numbers, strings, lists and dicts (a dict as the list
  of its items, looked up with \<open>map_of\<close>).
\<close>

datatype pyval =
    PNone
  | PBool bool
  | PNum real
  | PStr pystr
  | PList "pyval list"
  | PDict "(pystr \<times> pyval) list"

datatype error = TypeError | AttributeError | KeyError | OSError

section \<open>models.py: Message and Conversation\<close>

record message =
  role :: pystr
  content :: pyval
  timestamp :: real

record metrics_dict =
  total_duration :: real
  num_turns :: nat
  avg_assistant_response_time :: real
  avg_assistant_response_length :: real

text \<open>
  The dataclass \<open>Conversation\<close>; its field \<open>id\<close> is \<open>conv_id\<close> here. \<open>end_time\<close> and
  \<open>metrics\<close> are \<open>None\<close> until they are set.
\<close>

record conversation =
  conv_id :: pystr
  api_name :: pystr
  messages :: "message list"
  model :: pystr
  start_time :: real
  end_time :: "real option"
  metrics :: "metrics_dict option"

definition USER :: pystr where
  "USER = str_of ''user''"

definition ASSISTANT :: pystr where
  "ASSISTANT = str_of ''assistant''"

definition TEXT :: pystr where
  "TEXT = str_of ''text''"

text \<open>\<open>Conversation.add_message\<close>: \<open>self.messages.append(message)\<close>.\<close>

definition Conversation_add_message :: "message \<Rightarrow> conversation \<Rightarrow> conversation" where
  "Conversation_add_message m c = c\<lparr>messages := messages c @ [m]\<rparr>"

text \<open>
  \<open>Conversation.end_conversation\<close>: \<open>self.end_time = time.time()\<close>; the reading of the
  clock is the argument \<open>now\<close>.
\<close>

definition Conversation_end_conversation :: "real \<Rightarrow> conversation \<Rightarrow> conversation" where
  "Conversation_end_conversation now c = c\<lparr>end_time := Some now\<rparr>"

text \<open>\<open>not self.end_time\<close>: true for \<open>None\<close> and for \<open>0.0\<close>.\<close>

definition not_end_time :: "real option \<Rightarrow> bool" where
  "not_end_time e = (case e of None \<Rightarrow> True | Some t \<Rightarrow> t = 0)"

text \<open>
  \<open>_calculate_avg_response_time\<close>: the loop over \<open>range(1, len(self.messages))\<close> that
  collects \<open>response_times\<close>, then \<open>sum / len\<close>, or \<open>0\<close> for the empty list.
\<close>

definition response_times :: "message list \<Rightarrow> real list" where
  "response_times ms =
     concat (map (\<lambda>i. if role (ms ! i) = ASSISTANT \<and> role (ms ! (i - 1)) = USER
                        then [timestamp (ms ! i) - timestamp (ms ! (i - 1))] else [])
                 [1..<length ms])"

definition calculate_avg_response_time :: "conversation \<Rightarrow> real" where
  "calculate_avg_response_time c =
     (let rts = response_times (messages c)
      in if rts \<noteq> [] then sum_list rts / real (length rts) else 0)"

text \<open>
  \<open>_calculate_avg_response_length\<close>. \<open>len(x)\<close> is defined on strings, lists and dicts and
  raises \<open>TypeError\<close> on \<open>None\<close>, booleans and numbers. For a content that is not a string
  the generator iterates over it: over the items of a list, over the keys of a dict (which
  are strings, so none of them passes \<open>isinstance(item, dict)\<close>), and raises \<open>TypeError\<close>
  on a value that is not iterable.
\<close>

fun py_len :: "pyval \<Rightarrow> error + nat" where
  "py_len (PStr s) = Inr (length s)"
| "py_len (PList xs) = Inr (length xs)"
| "py_len (PDict kvs) = Inr (length (remdups (map fst kvs)))"
| "py_len _ = Inl TypeError"

fun text_lengths_sum :: "pyval list \<Rightarrow> error + nat" where
  "text_lengths_sum [] = Inr 0"
| "text_lengths_sum (PDict kvs # items) =
     (case map_of kvs TEXT of
        None \<Rightarrow> text_lengths_sum items
      | Some t \<Rightarrow>
          (case py_len t of
             Inl e \<Rightarrow> Inl e
           | Inr n \<Rightarrow> (case text_lengths_sum items of Inl e \<Rightarrow> Inl e | Inr k \<Rightarrow> Inr (n + k))))"
| "text_lengths_sum (_ # items) = text_lengths_sum items"

fun response_length :: "pyval \<Rightarrow> error + nat" where
  "response_length (PStr s) = Inr (length s)"
| "response_length (PList items) = text_lengths_sum items"
| "response_length (PDict kvs) = Inr 0"
| "response_length _ = Inl TypeError"

fun response_lengths :: "pyval list \<Rightarrow> error + nat list" where
  "response_lengths [] = Inr []"
| "response_lengths (r # rs) =
     (case response_length r of
        Inl e \<Rightarrow> Inl e
      | Inr n \<Rightarrow> (case response_lengths rs of Inl e \<Rightarrow> Inl e | Inr ns \<Rightarrow> Inr (n # ns)))"

definition calculate_avg_response_length :: "conversation \<Rightarrow> error + real" where
  "calculate_avg_response_length c =
     (let responses = map content (filter (\<lambda>m. role m = ASSISTANT) (messages c))
      in if responses = [] then Inr 0
         else (case response_lengths responses of
                 Inl e \<Rightarrow> Inl e
               | Inr lengths \<Rightarrow> Inr (real (sum_list lengths) / real (length lengths))))"

text \<open>
  \<open>calculate_metrics\<close>. It ends the conversation first when \<open>not self.end_time\<close>, then
  builds the dict in the order of its keys and assigns it to \<open>self.metrics\<close>. The result is
  the returned dict (or the exception raised) together with the conversation as the call
  leaves it; when \<open>_calculate_avg_response_length\<close> raises, \<open>end_time\<close> may already have
  been set and \<open>metrics\<close> is not assigned.
\<close>

definition calculate_metrics :: "real \<Rightarrow> conversation \<Rightarrow> (error + metrics_dict) \<times> conversation" where
  "calculate_metrics now c =
     (let c1 = (if not_end_time (end_time c) then Conversation_end_conversation now c else c)
      in case end_time c1 of
           None \<Rightarrow> (Inl TypeError, c1)
         | Some e \<Rightarrow>
             (case calculate_avg_response_length c1 of
                Inl err \<Rightarrow> (Inl err, c1)
              | Inr l \<Rightarrow>
                  (let m = \<lparr> total_duration = e - start_time c1,
                             num_turns = length (filter (\<lambda>m. role m = USER) (messages c1)),
                             avg_assistant_response_time = calculate_avg_response_time c1,
                             avg_assistant_response_length = l \<rparr>
                   in (Inr m, c1\<lparr>metrics := Some m\<rparr>))))"

text \<open>
  The reading of the mean in the specification: the index set of the adjacent
  (user, assistant) pairs, and the mean of the timestamp differences over it.
\<close>

definition spec_response_indices :: "message list \<Rightarrow> nat set" where
  "spec_response_indices ms =
     {i. 1 \<le> i \<and> i < length ms \<and> role (ms ! i) = ASSISTANT \<and> role (ms ! (i - 1)) = USER}"

definition spec_avg_response_time :: "message list \<Rightarrow> real" where
  "spec_avg_response_time ms =
     (if spec_response_indices ms = {} then 0
      else (\<Sum>i\<in>spec_response_indices ms. timestamp (ms ! i) - timestamp (ms ! (i - 1)))
             / real (card (spec_response_indices ms)))"

section \<open>evaluation.py: strings\<close>

text \<open>
  \<open>str.isspace\<close> of one code point: the characters that \<open>str.split()\<close> splits at and
  \<open>str.strip()\<close> removes.
\<close>

definition isspace :: "nat \<Rightarrow> bool" where
  "isspace c =
     ((9 \<le> c \<and> c \<le> 13) \<or> (28 \<le> c \<and> c \<le> 32) \<or> c = 133 \<or> c = 160 \<or> c = 5760
      \<or> (8192 \<le> c \<and> c \<le> 8202) \<or> c = 8232 \<or> c = 8233 \<or> c = 8239 \<or> c = 8287
      \<or> c = 12288)"

text \<open>\<open>s.split()\<close>: the maximal runs of characters that are not whitespace.\<close>

fun split_ws_aux :: "pystr \<Rightarrow> pystr \<Rightarrow> pystr list" where
  "split_ws_aux cur [] = (if cur = [] then [] else [rev cur])"
| "split_ws_aux cur (c # cs) =
     (if isspace c
      then (if cur = [] then split_ws_aux [] cs else rev cur # split_ws_aux [] cs)
      else split_ws_aux (c # cur) cs)"

definition split_ws :: "pystr \<Rightarrow> pystr list" where
  "split_ws s = split_ws_aux [] s"

text \<open>\<open>s.replace(old, new)\<close> where \<open>old\<close> and \<open>new\<close> are single characters.\<close>

definition replace_char :: "nat \<Rightarrow> nat \<Rightarrow> pystr \<Rightarrow> pystr" where
  "replace_char old new s = map (\<lambda>c. if c = old then new else c) s"

text \<open>\<open>p in s\<close> for strings: \<open>p\<close> occurs in \<open>s\<close> as a substring.\<close>

fun is_prefix :: "pystr \<Rightarrow> pystr \<Rightarrow> bool" where
  "is_prefix [] ys = True"
| "is_prefix (x # xs) [] = False"
| "is_prefix (x # xs) (y # ys) = (x = y \<and> is_prefix xs ys)"

fun contains :: "pystr \<Rightarrow> pystr \<Rightarrow> bool" where
  "contains [] p = (p = [])"
| "contains (c # cs) p = (is_prefix p (c # cs) \<or> contains cs p)"

text \<open>
  \<open>s.split(sep)\<close> for a separator that is not empty: the pieces between the occurrences of
  \<open>sep\<close>, found from the left without overlap. The counter holds the characters of a
  matched separator still to skip.
\<close>

fun split_aux :: "pystr \<Rightarrow> nat \<Rightarrow> pystr \<Rightarrow> pystr \<Rightarrow> pystr list" where
  "split_aux sep k cur [] = [rev cur]"
| "split_aux sep (Suc k) cur (c # cs) = split_aux sep k cur cs"
| "split_aux sep 0 cur (c # cs) =
     (if is_prefix sep (c # cs) then rev cur # split_aux sep (length sep - 1) [] cs
      else split_aux sep 0 (c # cur) cs)"

definition py_split :: "pystr \<Rightarrow> pystr \<Rightarrow> pystr list" where
  "py_split sep s = split_aux sep 0 [] s"

definition strip :: "pystr \<Rightarrow> pystr" where
  "strip s = rev (dropWhile isspace (rev (dropWhile isspace s)))"

text \<open>
  \<open>sep.join(xs)\<close>: \<open>TypeError\<close> when an item is not a string.
\<close>

fun join_strs :: "pystr \<Rightarrow> pyval list \<Rightarrow> error + pystr" where
  "join_strs sep [] = Inr []"
| "join_strs sep [PStr s] = Inr s"
| "join_strs sep (PStr s # x # xs) =
     (case join_strs sep (x # xs) of Inl e \<Rightarrow> Inl e | Inr t \<Rightarrow> Inr (s @ sep @ t))"
| "join_strs sep (_ # xs) = Inl TypeError"

text \<open>
  \<open>str.lower\<close> follows the case mapping tables of Unicode, which are no part of the
  repository: the functions below take it as the parameter \<open>lower\<close>. On strings of ASCII
  characters it is \<open>ascii_lower\<close>.
\<close>

definition ascii_lower :: "pystr \<Rightarrow> pystr" where
  "ascii_lower s = map (\<lambda>c. if 65 \<le> c \<and> c \<le> 90 then c + 32 else c) s"

text \<open>
  \<open>_tokenize\<close>: the five Chinese punctuation marks (comma U+FF0C, full stop U+3002,
  exclamation mark U+FF01, question mark U+FF1F, enumeration comma U+3001) become spaces,
  then \<open>split()\<close>.
\<close>

definition tokenize :: "pystr \<Rightarrow> pystr list" where
  "tokenize text =
     split_ws (replace_char 12289 32 (replace_char 65311 32 (replace_char 65281 32
       (replace_char 12290 32 (replace_char 65292 32 text)))))"

text \<open>
  \<open>sum(phrase in s for phrase in phrases)\<close>: the number of phrases of the list that occur
  in \<open>s\<close>.
\<close>

definition count_phrases :: "pystr list \<Rightarrow> pystr \<Rightarrow> nat" where
  "count_phrases phrases s = length (filter (contains s) phrases)"

text \<open>
  \<open>len(set(xs).intersection(set(ys)))\<close>, with a set as a list without duplicates.
\<close>

definition intersection_size :: "pystr list \<Rightarrow> pystr list \<Rightarrow> nat" where
  "intersection_size xs ys = length (filter (\<lambda>w. w \<in> set (remdups ys)) (remdups xs))"

section \<open>evaluation.py: the five dimensions\<close>

text \<open>
  \<open>EVALUATION_DIMENSIONS\<close>, each dimension with its weight, in the order of the dict; the
  description of a dimension plays no part in any computation and is left out.
\<close>

definition EVALUATION_DIMENSIONS :: "(string \<times> real) list" where
  "EVALUATION_DIMENSIONS =
     [(''relevance'', 0.25), (''accuracy'', 0.25), (''completeness'', 0.20),
      (''coherence'', 0.15), (''creativity'', 0.15)]"

definition uncertainty_phrases :: "pystr list" where
  "uncertainty_phrases =
     [[25105, 19981, 30830, 23450],
      [21487, 33021],
      [20063, 35768],
      [25105, 29468],
      [19981, 22826, 28165, 26970],
      [19981, 22826, 30830, 23450]]"

definition fact_indicators :: "pystr list" where
  "fact_indicators =
     [[20107, 23454, 19978],
      [30740, 31350, 34920, 26126],
      [25968, 25454, 26174, 31034],
      [26681, 25454],
      [35777, 26126],
      [35777, 23454]]"

definition structure_indicators :: "pystr list" where
  "structure_indicators =
     [[65306],
      [58],
      [10, 45],
      [10, 8226],
      [10, 42],
      [10, 49, 46],
      [39318, 20808],
      [20854, 27425],
      [26368, 21518],
      [24635, 32467]]"

definition connectors :: "pystr list" where
  "connectors =
     [[22240, 27492],
      [25152, 20197],
      [28982, 32780],
      [20294, 26159],
      [27492, 22806],
      [21478, 22806],
      [24635, 20043],
      [39318, 20808],
      [20854, 27425],
      [26368, 21518]]"

definition rhetoric_phrases :: "pystr list" where
  "rhetoric_phrases =
     [[23601, 20687],
      [31867, 20284, 20110],
      [21487, 20197, 27604, 20316],
      [24819, 35937],
      [27604, 22914, 35828],
      [24418, 35937, 22320, 35828]]"

text \<open>The length factor of \<open>_evaluate_relevance\<close>, of a response of \<open>n\<close> characters.\<close>

definition length_factor :: "nat \<Rightarrow> real" where
  "length_factor n = min 1 (real n / 1000) * min 1 (5000 / real (max 1 n))"

definition overlap :: "pystr list \<Rightarrow> pystr list \<Rightarrow> real" where
  "overlap prompt_words response_words =
     real (intersection_size prompt_words response_words)
       / real (max 1 (length (remdups prompt_words)))"

text \<open>
  \<open>_evaluate_relevance\<close> is the first to call \<open>.lower()\<close> on the prompt and then on the
  response: a value that is not a string has no such method, which raises
  \<open>AttributeError\<close>.
\<close>

definition evaluate_relevance :: "(pystr \<Rightarrow> pystr) \<Rightarrow> pyval \<Rightarrow> pyval \<Rightarrow> error + real" where
  "evaluate_relevance lower prompt response =
     (case prompt of
        PStr p \<Rightarrow>
          (case response of
             PStr r \<Rightarrow>
               (let prompt_words = tokenize (lower p);
                    response_words = tokenize (lower r);
                    score = 0.7 + 0.3 * overlap prompt_words response_words * length_factor (length r)
                in Inr (min 1 (max 0 score)))
           | _ \<Rightarrow> Inl AttributeError)
      | _ \<Rightarrow> Inl AttributeError)"

definition evaluate_accuracy :: "(pystr \<Rightarrow> pystr) \<Rightarrow> pystr \<Rightarrow> pystr \<Rightarrow> real" where
  "evaluate_accuracy lower prompt response =
     (let uncertainty_count = count_phrases uncertainty_phrases (lower response);
          fact_count = count_phrases fact_indicators (lower response);
          base_score = 0.8;
          score = base_score - real uncertainty_count * 0.05 + real fact_count * 0.03
      in min 1 (max 0.5 score))"

definition evaluate_completeness :: "pystr \<Rightarrow> pystr \<Rightarrow> real" where
  "evaluate_completeness prompt response =
     (let length_score = min 1 (real (length response) / 500);
          has_structure = list_ex (contains response) structure_indicators;
          structure_score = (if has_structure then 0.2 else 0);
          score = 0.7 * length_score + 0.3 + structure_score
      in min 1 score)"

text \<open>
  \<open>_evaluate_coherence\<close>. The context is the list of the earlier turns, each a prompt and
  a response; \<open>None\<close> and the empty list are both false in \<open>if context:\<close>.
\<close>

definition evaluate_coherence ::
    "(pystr \<Rightarrow> pystr) \<Rightarrow> pystr \<Rightarrow> pystr \<Rightarrow> (pyval \<times> pyval) list \<Rightarrow> error + real" where
  "evaluate_coherence lower prompt response context =
     (let base_score = 0.8;
          paragraphs = py_split [10, 10] response;
          paragraph_score = min 1 (real (length paragraphs) / 3) * 0.1;
          connector_count = count_phrases connectors (lower response);
          connector_score = min 0.1 (real connector_count * 0.02)
      in case (if context \<noteq> []
               then (case join_strs [32] (map snd context) of
                       Inl e \<Rightarrow> Inl e
                     | Inr prev_responses \<Rightarrow>
                         (case join_strs [32] (map fst context) of
                            Inl e \<Rightarrow> Inl e
                          | Inr prev_prompts \<Rightarrow>
                              (let prev_words = tokenize (lower (prev_responses @ [32] @ prev_prompts));
                                   response_words = tokenize (lower response);
                                   context_overlap =
                                     real (intersection_size prev_words response_words)
                                       / real (max 1 (length (remdups response_words)))
                               in Inr (context_overlap * 0.1))))
               else Inr 0) of
           Inl e \<Rightarrow> Inl e
         | Inr context_score \<Rightarrow>
             Inr (min 1 (base_score + paragraph_score + connector_score + context_score)))"

text \<open>\<open>np.mean\<close> and \<open>np.std\<close> (the population standard deviation) of a list.\<close>

definition np_mean :: "real list \<Rightarrow> real" where
  "np_mean xs = sum_list xs / real (length xs)"

definition np_std :: "real list \<Rightarrow> real" where
  "np_std xs = sqrt (np_mean (map (\<lambda>x. (x - np_mean xs)\<^sup>2) xs))"

text \<open>
  The sentences of \<open>_evaluate_creativity\<close>: the Chinese exclamation and question marks
  become the Chinese full stop U+3002, the ASCII ones the ASCII full stop, and the text is
  split at U+3002.
\<close>

definition sentences_of :: "pystr \<Rightarrow> pystr list" where
  "sentences_of response =
     filter (\<lambda>s. s \<noteq> [])
       (map strip
          (py_split [12290]
             (replace_char 63 46 (replace_char 33 46
                (replace_char 65311 12290 (replace_char 65281 12290 response))))))"

definition evaluate_creativity :: "(pystr \<Rightarrow> pystr) \<Rightarrow> pystr \<Rightarrow> real" where
  "evaluate_creativity lower response =
     (let rhetoric_count = count_phrases rhetoric_phrases (lower response);
          words = tokenize (lower response);
          unique_words = remdups words;
          vocabulary_diversity = real (length unique_words) / real (max 1 (length words));
          sentences = sentences_of response;
          sentence_lengths = map (\<lambda>s. real (length s)) sentences;
          sentence_diversity =
            (if sentences \<noteq> [] then np_std sentence_lengths / max 1 (np_mean sentence_lengths)
             else 0);
          base_score = 0.7;
          rhetoric_score = min 0.1 (real rhetoric_count * 0.03);
          diversity_score = vocabulary_diversity * 0.1;
          sentence_score = min 0.1 (sentence_diversity * 0.5);
          score = base_score + rhetoric_score + diversity_score + sentence_score
      in min 1 (max 0.5 score))"

section \<open>evaluation.py: evaluate_response and evaluate_conversation\<close>

record dim_score =
  score :: real
  weight :: real

record evaluation =
  dimensions :: "(string \<times> dim_score) list"
  total_score :: real

text \<open>
  The loop \<open>total_score += score * self.dimensions[dim]["weight"]\<close> over the scores in
  the order they were stored; a dimension that \<open>self.dimensions\<close> lacks raises
  \<open>KeyError\<close>. \<open>dims\<close> is \<open>self.dimensions\<close>, each name with its weight.
\<close>

fun weighted_total :: "(string \<times> real) list \<Rightarrow> (string \<times> real) list \<Rightarrow> real \<Rightarrow> error + real" where
  "weighted_total dims [] tot = Inr tot"
| "weighted_total dims ((d_name, sc) # rest) tot =
     (case map_of dims d_name of
        None \<Rightarrow> Inl KeyError
      | Some w \<Rightarrow> weighted_total dims rest (tot + sc * w))"

fun dimension_entries :: "(string \<times> real) list \<Rightarrow> (string \<times> real) list
    \<Rightarrow> error + (string \<times> dim_score) list" where
  "dimension_entries dims [] = Inr []"
| "dimension_entries dims ((d_name, sc) # rest) =
     (case map_of dims d_name of
        None \<Rightarrow> Inl KeyError
      | Some w \<Rightarrow>
          (case dimension_entries dims rest of
             Inl e \<Rightarrow> Inl e
           | Inr ds \<Rightarrow> Inr ((d_name, \<lparr> score = sc, weight = w \<rparr>) # ds)))"

definition evaluate_response ::
    "(string \<times> real) list \<Rightarrow> (pystr \<Rightarrow> pystr) \<Rightarrow> pyval \<Rightarrow> pyval \<Rightarrow> (pyval \<times> pyval) list
      \<Rightarrow> error + evaluation" where
  "evaluate_response dims lower prompt response context =
     (case evaluate_relevance lower prompt response of
        Inl e \<Rightarrow> Inl e
      | Inr relevance \<Rightarrow>
          (case (prompt, response) of
             (PStr p, PStr r) \<Rightarrow>
               (case evaluate_coherence lower p r context of
                  Inl e \<Rightarrow> Inl e
                | Inr coherence \<Rightarrow>
                    (let scores = [(''relevance'', relevance),
                                   (''accuracy'', evaluate_accuracy lower p r),
                                   (''completeness'', evaluate_completeness p r),
                                   (''coherence'', coherence),
                                   (''creativity'', evaluate_creativity lower r)]
                     in case weighted_total dims scores 0 of
                          Inl e \<Rightarrow> Inl e
                        | Inr tot \<Rightarrow>
                            (case dimension_entries dims scores of
                               Inl e \<Rightarrow> Inl e
                             | Inr ds \<Rightarrow> Inr \<lparr> dimensions = ds, total_score = tot \<rparr>)))
           | _ \<Rightarrow> Inl AttributeError))"

text \<open>
  The extraction of the prompt in \<open>evaluate_conversation\<close>: a list gives the \<open>"text"\<close>
  values of its dict items joined by spaces, a dict with a \<open>"text"\<close> key gives that value,
  anything else that is not a string gives \<open>str(prompt)\<close>, here the parameter \<open>repr\<close>.
\<close>

fun text_parts :: "pyval list \<Rightarrow> pyval list" where
  "text_parts [] = []"
| "text_parts (PDict kvs # items) =
     (case map_of kvs TEXT of Some t \<Rightarrow> t # text_parts items | None \<Rightarrow> text_parts items)"
| "text_parts (_ # items) = text_parts items"

fun extract_prompt :: "(pyval \<Rightarrow> pystr) \<Rightarrow> pyval \<Rightarrow> error + pyval" where
  "extract_prompt repr (PStr s) = Inr (PStr s)"
| "extract_prompt repr (PList items) =
     (case join_strs [32] (text_parts items) of Inl e \<Rightarrow> Inl e | Inr s \<Rightarrow> Inr (PStr s))"
| "extract_prompt repr (PDict kvs) =
     (case map_of kvs TEXT of Some t \<Rightarrow> Inr t | None \<Rightarrow> Inr (PStr (repr (PDict kvs))))"
| "extract_prompt repr v = Inr (PStr (repr v))"

text \<open>\<open>range(0, n, 2)\<close>.\<close>

definition range_step2 :: "nat \<Rightarrow> nat list" where
  "range_step2 n = map (\<lambda>k. 2 * k) [0..<(n + 1) div 2]"

text \<open>
  The loop of \<open>evaluate_conversation\<close> over the indices, with the lists \<open>scores\<close> and
  \<open>context\<close> it appends to. The response is passed to \<open>evaluate_response\<close> as the
  message holds it.
\<close>

fun evaluate_turns ::
    "(string \<times> real) list \<Rightarrow> (pystr \<Rightarrow> pystr) \<Rightarrow> (pyval \<Rightarrow> pystr) \<Rightarrow> message list \<Rightarrow> nat list
      \<Rightarrow> evaluation list \<Rightarrow> (pyval \<times> pyval) list \<Rightarrow> error + evaluation list" where
  "evaluate_turns dims lower repr ms [] scores context = Inr scores"
| "evaluate_turns dims lower repr ms (i # idxs) scores context =
     (if i + 1 < length ms
      then (case extract_prompt repr (content (ms ! i)) of
              Inl e \<Rightarrow> Inl e
            | Inr prompt \<Rightarrow>
                (let response = content (ms ! (i + 1))
                 in case evaluate_response dims lower prompt response context of
                      Inl e \<Rightarrow> Inl e
                    | Inr sc \<Rightarrow>
                        evaluate_turns dims lower repr ms idxs (scores @ [sc])
                          (context @ [(prompt, response)])))
      else evaluate_turns dims lower repr ms idxs scores context)"

datatype conversation_evaluation =
    Evaluated (turn_scores: "evaluation list") (average_score: real)
      (average_dimensions: "(string \<times> real) list")
  | Error pystr

text \<open>
  \<open>avg_dimensions\<close>: for each dimension of \<open>self.dimensions\<close>, the mean over the turns of
  \<open>score["dimensions"][dim]["score"]\<close>; \<open>KeyError\<close> when a turn has no such dimension.
\<close>

fun dimension_scores :: "string \<Rightarrow> evaluation list \<Rightarrow> error + real list" where
  "dimension_scores d_name [] = Inr []"
| "dimension_scores d_name (sc # rest) =
     (case map_of (dimensions sc) d_name of
        None \<Rightarrow> Inl KeyError
      | Some d \<Rightarrow>
          (case dimension_scores d_name rest of Inl e \<Rightarrow> Inl e | Inr xs \<Rightarrow> Inr (score d # xs)))"

fun average_dimensions_of :: "string list \<Rightarrow> evaluation list \<Rightarrow> error + (string \<times> real) list" where
  "average_dimensions_of [] scores = Inr []"
| "average_dimensions_of (d_name # rest) scores =
     (case dimension_scores d_name scores of
        Inl e \<Rightarrow> Inl e
      | Inr xs \<Rightarrow>
          (case average_dimensions_of rest scores of
             Inl e \<Rightarrow> Inl e
           | Inr avgs \<Rightarrow> Inr ((d_name, sum_list xs / real (length scores)) # avgs)))"

definition evaluate_conversation ::
    "(string \<times> real) list \<Rightarrow> (pystr \<Rightarrow> pystr) \<Rightarrow> (pyval \<Rightarrow> pystr) \<Rightarrow> message list
      \<Rightarrow> error + conversation_evaluation" where
  "evaluate_conversation dims lower repr ms =
     (case evaluate_turns dims lower repr ms (range_step2 (length ms)) [] [] of
        Inl e \<Rightarrow> Inl e
      | Inr scores \<Rightarrow>
          (if scores \<noteq> []
           then (let avg_total = sum_list (map total_score scores) / real (length scores)
                 in case average_dimensions_of (map fst dims) scores of
                      Inl e \<Rightarrow> Inl e
                    | Inr avg_dimensions \<Rightarrow> Inr (Evaluated scores avg_total avg_dimensions))
           else Inr (Error (str_of ''No valid turns to evaluate''))))"

section \<open>Auxiliary definitions and examples\<close>

text \<open>
  The loop of \<open>evaluate_conversation\<close> as a recursion over the messages two at a time;
  \<open>evaluate_turns_pairs\<close> below shows that the loop over the indices computes it.
\<close>

fun evaluate_pairs ::
    "(string \<times> real) list \<Rightarrow> (pystr \<Rightarrow> pystr) \<Rightarrow> (pyval \<Rightarrow> pystr) \<Rightarrow> message list
      \<Rightarrow> evaluation list \<Rightarrow> (pyval \<times> pyval) list \<Rightarrow> error + evaluation list" where
  "evaluate_pairs dims lower repr (p # r # rest) scores context =
     (case extract_prompt repr (content p) of
        Inl e \<Rightarrow> Inl e
      | Inr prompt \<Rightarrow>
          (case evaluate_response dims lower prompt (content r) context of
             Inl e \<Rightarrow> Inl e
           | Inr sc \<Rightarrow>
               evaluate_pairs dims lower repr rest (scores @ [sc])
                 (context @ [(prompt, content r)])))"
| "evaluate_pairs dims lower repr [p] scores context = Inr scores"
| "evaluate_pairs dims lower repr [] scores context = Inr scores"




text \<open>\<open>result["dimensions"][name]["score"]\<close> of a result that has the dimension.\<close>

definition dimension_score :: "evaluation \<Rightarrow> string \<Rightarrow> real" where
  "dimension_score res name = (case map_of (dimensions res) name of Some d \<Rightarrow> score d | None \<Rightarrow> 0)"

text \<open>
  A prompt \<open>"a"\<close> and a response of 500 characters, \<open>"a"\<close> followed by 499 spaces, whose
  only token is the prompt's.
\<close>

definition example_prompt :: pystr where
  "example_prompt = [97]"

definition example_response :: pystr where
  "example_response = 97 # replicate 499 32"

text \<open>
  A conversation of one turn whose response is structured, as the content of a message
  with an image is: a list with one text part.
\<close>

definition structured_content :: pyval where
  "structured_content =
     PList [PDict [(str_of ''type'', PStr (str_of ''text'')), (TEXT, PStr (str_of ''hello''))]]"

definition structured_response_messages :: "message list" where
  "structured_response_messages =
     [\<lparr> role = USER, content = PStr (str_of ''hi''), timestamp = 1 \<rparr>,
      \<lparr> role = ASSISTANT, content = structured_content, timestamp = 2 \<rparr>]"

text \<open>The conversation as the guard at the head of \<open>calculate_metrics\<close> leaves it.\<close>

definition ended :: "real \<Rightarrow> conversation \<Rightarrow> conversation" where
  "ended now c = (if not_end_time (end_time c) then Conversation_end_conversation now c else c)"

text \<open>
  A conversation of two turns, not yet ended: the user writes at times 1 and 4, the
  assistant answers at times 3 and 9.
\<close>

definition example_conversation :: conversation where
  "example_conversation =
     \<lparr> conv_id = str_of ''c1'', api_name = str_of ''openai'',
       messages =
         [\<lparr> role = USER, content = PStr (str_of ''hi''), timestamp = 1 \<rparr>,
          \<lparr> role = ASSISTANT, content = PStr (str_of ''hello''), timestamp = 3 \<rparr>,
          \<lparr> role = USER, content = PStr (str_of ''more''), timestamp = 4 \<rparr>,
          \<lparr> role = ASSISTANT, content = PStr (str_of ''ok''), timestamp = 9 \<rparr>],
       model = str_of ''gpt-4.1'', start_time = 1, end_time = None, metrics = None \<rparr>"

definition example_metrics :: metrics_dict where
  "example_metrics =
     \<lparr> total_duration = 9, num_turns = 2,
       avg_assistant_response_time = 7 / 2, avg_assistant_response_length = 7 / 2 \<rparr>"

section \<open>models.py: ConversationManager\<close>

text \<open>
  The two dicts of the manager keep insertion order, which \<open>save_all_conversations\<close>
  iterates, so each is the list of its items: \<open>map_of\<close> looks a key up,
  \<open>AList.update\<close> assigns in place to a key that is present and appends a new one.
  Conversation identifiers and backend names are strings; a current-conversation slot holds
  \<open>None\<close> or an identifier.
\<close>

record manager =
  conversations :: "(pystr \<times> conversation) list"
  current_conversation_ids :: "(pystr \<times> pystr option) list"

definition init_manager :: manager where
  "init_manager =
     \<lparr> conversations = [],
       current_conversation_ids =
         [(str_of ''monica'', None), (str_of ''openai'', None), (str_of ''gemini'', None)] \<rparr>"

text \<open>
  \<open>start_conversation\<close>. \<open>new_id\<close> is the string \<open>str(uuid.uuid4())\<close> and \<open>now\<close> the
  reading of the clock. The two assignments of the source are the two state updates, in
  their order: \<open>self.conversations[conv_id] = conversation\<close>, then
  \<open>self.current_conversation_ids[api_name] = conv_id\<close>.
\<close>

definition new_conversation :: "pystr \<Rightarrow> real \<Rightarrow> pystr \<Rightarrow> pystr \<Rightarrow> conversation" where
  "new_conversation new_id now api mdl =
     \<lparr> conv_id = new_id, api_name = api, messages = [], model = mdl,
       start_time = now, end_time = None, metrics = None \<rparr>"

definition register_conversation :: "pystr \<Rightarrow> conversation \<Rightarrow> manager \<Rightarrow> manager" where
  "register_conversation cid c mgr = mgr\<lparr>conversations := AList.update cid c (conversations mgr)\<rparr>"

definition set_current :: "pystr \<Rightarrow> pystr \<Rightarrow> manager \<Rightarrow> manager" where
  "set_current api cid mgr =
     mgr\<lparr>current_conversation_ids := AList.update api (Some cid) (current_conversation_ids mgr)\<rparr>"

definition start_conversation :: "pystr \<Rightarrow> real \<Rightarrow> pystr \<Rightarrow> pystr \<Rightarrow> manager \<Rightarrow> pystr \<times> manager" where
  "start_conversation new_id now api mdl mgr =
     (let conversation = new_conversation new_id now api mdl;
          mgr1 = register_conversation new_id conversation mgr;
          mgr2 = set_current api new_id mgr1
      in (new_id, mgr2))"

text \<open>
  \<open>ConversationManager.add_message\<close>: the conversation object is changed in place, so
  its entry keeps its position in the dict.
\<close>

definition Manager_add_message :: "pystr \<Rightarrow> message \<Rightarrow> manager \<Rightarrow> bool \<times> manager" where
  "Manager_add_message cid msg mgr =
     (case map_of (conversations mgr) cid of
        Some c \<Rightarrow>
          (True, mgr\<lparr>conversations :=
                        AList.update cid (Conversation_add_message msg c) (conversations mgr)\<rparr>)
      | None \<Rightarrow> (False, mgr))"

definition get_conversation :: "pystr \<Rightarrow> manager \<Rightarrow> conversation option" where
  "get_conversation cid mgr = map_of (conversations mgr) cid"

text \<open>
  \<open>get_current_conversation\<close>: \<open>if conv_id:\<close> is false for \<open>None\<close> and for the empty
  string.
\<close>

definition get_current_conversation :: "pystr \<Rightarrow> manager \<Rightarrow> conversation option" where
  "get_current_conversation api mgr =
     (case map_of (current_conversation_ids mgr) api of
        Some (Some cid) \<Rightarrow> if cid \<noteq> [] then map_of (conversations mgr) cid else None
      | _ \<Rightarrow> None)"

definition Manager_end_conversation :: "real \<Rightarrow> pystr \<Rightarrow> manager \<Rightarrow> bool \<times> manager" where
  "Manager_end_conversation now cid mgr =
     (case map_of (conversations mgr) cid of
        Some c \<Rightarrow>
          (True, mgr\<lparr>conversations :=
                        AList.update cid (Conversation_end_conversation now c) (conversations mgr)\<rparr>)
      | None \<Rightarrow> (False, mgr))"

text \<open>
  The environment of \<open>save_all_conversations\<close>: \<open>clock k\<close> is the \<open>k\<close>-th reading of
  \<open>time.time()\<close>, \<open>makedirs_ok\<close> tells whether \<open>os.makedirs\<close> succeeds on a directory,
  \<open>write_ok\<close> whether a file of that name can be opened and written, and \<open>row_ok\<close> whether
  the CSV row of a conversation can be formatted and written. A failure raises \<open>OSError\<close>,
  which nothing in the manager catches.
\<close>

record env =
  clock :: "nat \<Rightarrow> real"
  makedirs_ok :: "pystr \<Rightarrow> bool"
  write_ok :: "pystr \<Rightarrow> bool"
  row_ok :: "conversation \<Rightarrow> bool"

text \<open>\<open>int(x)\<close> of a float truncates towards zero; \<open>str\<close> of an int is its decimal numeral.\<close>

definition py_int :: "real \<Rightarrow> int" where
  "py_int x = (if 0 \<le> x then \<lfloor>x\<rfloor> else \<lceil>x\<rceil>)"

fun digits :: "nat \<Rightarrow> pystr" where
  "digits n = (if n < 10 then [48 + n] else digits (n div 10) @ [48 + n mod 10])"

definition str_int :: "int \<Rightarrow> pystr" where
  "str_int i = (if i < 0 then 45 # digits (nat (- i)) else digits (nat i))"

definition save_to_file :: "env \<Rightarrow> pystr \<Rightarrow> conversation \<Rightarrow> error + pystr" where
  "save_to_file ev directory c =
     (if \<not> makedirs_ok ev directory then Inl OSError
      else (let filename = directory @ str_of ''/'' @ api_name c @ str_of ''_'' @ conv_id c
                             @ str_of ''_'' @ str_int (py_int (start_time c)) @ str_of ''.json''
            in if write_ok ev filename then Inr filename else Inl OSError))"

text \<open>
  The loop of \<open>save_all_conversations\<close> over \<open>self.conversations.items()\<close>, from clock
  tick \<open>k\<close>. It returns the file names saved (or the exception), the next clock tick and
  the items with the conversations as the loop leaves them: an exception leaves the
  conversations after the failing one untouched.
\<close>

fun save_loop :: "env \<Rightarrow> pystr \<Rightarrow> nat \<Rightarrow> (pystr \<times> conversation) list
    \<Rightarrow> (error + pystr list) \<times> nat \<times> (pystr \<times> conversation) list" where
  "save_loop ev directory k [] = (Inr [], k, [])"
| "save_loop ev directory k ((cid, c) # rest) =
     (let c1 = (if not_end_time (end_time c) then Conversation_end_conversation (clock ev k) c else c);
          k1 = (if not_end_time (end_time c) then Suc k else k);
          (r, c2) = calculate_metrics (clock ev k1) c1;
          k2 = (if not_end_time (end_time c1) then Suc k1 else k1)
      in case r of
           Inl e \<Rightarrow> (Inl e, k2, (cid, c2) # rest)
         | Inr m \<Rightarrow>
             (case save_to_file ev directory c2 of
                Inl e \<Rightarrow> (Inl e, k2, (cid, c2) # rest)
              | Inr f \<Rightarrow>
                  (case save_loop ev directory k2 rest of
                     (Inl e, k3, rest') \<Rightarrow> (Inl e, k3, (cid, c2) # rest')
                   | (Inr fs, k3, rest') \<Rightarrow> (Inr (f # fs), k3, (cid, c2) # rest'))))"

text \<open>
  The loop of \<open>_create_summary_csv\<close> over \<open>self.conversations.values()\<close>: metrics are
  computed for a conversation that has none, then its row is written.
\<close>

fun summary_rows :: "env \<Rightarrow> nat \<Rightarrow> (pystr \<times> conversation) list
    \<Rightarrow> (error + unit) \<times> nat \<times> (pystr \<times> conversation) list" where
  "summary_rows ev k [] = (Inr (), k, [])"
| "summary_rows ev k ((cid, c) # rest) =
     (let (r, c1) = (if metrics c = None
                     then (case calculate_metrics (clock ev k) c of
                             (Inl e, c') \<Rightarrow> (Inl e, c') | (Inr m, c') \<Rightarrow> (Inr (), c'))
                     else (Inr (), c));
          k1 = (if metrics c = None \<and> not_end_time (end_time c) then Suc k else k)
      in case r of
           Inl e \<Rightarrow> (Inl e, k1, (cid, c1) # rest)
         | Inr u \<Rightarrow>
             (if \<not> row_ok ev c1 then (Inl OSError, k1, (cid, c1) # rest)
              else (case summary_rows ev k1 rest of
                      (r', k2, rest') \<Rightarrow> (r', k2, (cid, c1) # rest'))))"

definition create_summary_csv :: "env \<Rightarrow> pystr \<Rightarrow> nat \<Rightarrow> (pystr \<times> conversation) list
    \<Rightarrow> (error + pystr) \<times> nat \<times> (pystr \<times> conversation) list" where
  "create_summary_csv ev directory k cs =
     (let csv_file = directory @ str_of ''/summary_'' @ str_int (py_int (clock ev k)) @ str_of ''.csv''
      in if \<not> write_ok ev csv_file then (Inl OSError, Suc k, cs)
         else (case summary_rows ev (Suc k) cs of
                 (Inl e, k', cs') \<Rightarrow> (Inl e, k', cs')
               | (Inr u, k', cs') \<Rightarrow> (Inr csv_file, k', cs')))"

definition save_all_conversations :: "env \<Rightarrow> pystr \<Rightarrow> nat \<Rightarrow> manager
    \<Rightarrow> (error + pystr list) \<times> nat \<times> manager" where
  "save_all_conversations ev directory k mgr =
     (if \<not> makedirs_ok ev directory then (Inl OSError, k, mgr)
      else (case save_loop ev directory k (conversations mgr) of
              (Inl e, k1, cs) \<Rightarrow> (Inl e, k1, mgr\<lparr>conversations := cs\<rparr>)
            | (Inr saved_files, k1, cs) \<Rightarrow>
                (case create_summary_csv ev directory k1 cs of
                   (Inl e, k2, cs') \<Rightarrow> (Inl e, k2, mgr\<lparr>conversations := cs'\<rparr>)
                 | (Inr f, k2, cs') \<Rightarrow> (Inr saved_files, k2, mgr\<lparr>conversations := cs'\<rparr>))))"

text \<open>
  The invariant of the store: an identifier held in a current-conversation slot is a key
  of \<open>conversations\<close>.
\<close>

definition store_invariant :: "manager \<Rightarrow> bool" where
  "store_invariant mgr =
     (\<forall>api cid. (api, Some cid) \<in> set (current_conversation_ids mgr)
        \<longrightarrow> cid \<in> fst ` set (conversations mgr))"

text \<open>
  One step of the store: an operation of the manager, or a change made to a stored
  conversation through the handle that \<open>get_conversation\<close> returned (the clients append
  their messages this way). The two getters leave the store as it is.
\<close>

inductive step :: "manager \<Rightarrow> manager \<Rightarrow> bool" where
  step_start: "step mgr (snd (start_conversation new_id now api mdl mgr))"
| step_add: "step mgr (snd (Manager_add_message cid msg mgr))"
| step_get: "get_conversation cid mgr = r \<Longrightarrow> step mgr mgr"
| step_get_current: "get_current_conversation api mgr = r \<Longrightarrow> step mgr mgr"
| step_handle: "get_conversation cid mgr = Some c \<Longrightarrow>
     step mgr (mgr\<lparr>conversations := AList.update cid c' (conversations mgr)\<rparr>)"
| step_end: "step mgr (snd (Manager_end_conversation now cid mgr))"
| step_save: "step mgr (snd (snd (save_all_conversations ev directory k mgr)))"

inductive reachable :: "manager \<Rightarrow> bool" where
  reachable_init: "reachable init_manager"
| reachable_step: "reachable mgr \<Longrightarrow> step mgr mgr' \<Longrightarrow> reachable mgr'"

text \<open>The store after one \<open>start_conversation\<close>, and a message to add.\<close>

definition example_manager :: manager where
  "example_manager =
     snd (start_conversation (str_of ''c1'') 1 (str_of ''openai'') (str_of ''gpt-4.1'') init_manager)"

definition example_message :: message where
  "example_message = \<lparr> role = USER, content = PStr (str_of ''hi''), timestamp = 2 \<rparr>"


section \<open>Properties of the conversation metrics\<close>

lemma USER_ASSISTANT_neq: "USER \<noteq> ASSISTANT"
  by (simp add: USER_def ASSISTANT_def str_of_def)

lemma concat_map_if:
  "concat (map (\<lambda>i. if P i then [f i] else []) xs) = map f (filter P xs)"
  by (induction xs) simp_all

lemma response_times_filter:
  "response_times ms =
     map (\<lambda>i. timestamp (ms ! i) - timestamp (ms ! (i - 1)))
       (filter (\<lambda>i. role (ms ! i) = ASSISTANT \<and> role (ms ! (i - 1)) = USER) [1..<length ms])"
  unfolding response_times_def by (rule concat_map_if)

lemma set_response_filter:
  "set (filter (\<lambda>i. role (ms ! i) = ASSISTANT \<and> role (ms ! (i - 1)) = USER) [1..<length ms])
     = spec_response_indices ms"
  by (auto simp: spec_response_indices_def)

lemma avg_response_time_refines:
  "calculate_avg_response_time c = spec_avg_response_time (messages c)"
proof -
  let ?ms = "messages c"
  let ?is = "filter (\<lambda>i. role (?ms ! i) = ASSISTANT \<and> role (?ms ! (i - 1)) = USER) [1..<length ?ms]"
  let ?f = "\<lambda>i. timestamp (?ms ! i) - timestamp (?ms ! (i - 1))"
  have d: "distinct ?is" by simp
  have s: "set ?is = spec_response_indices ?ms" by (rule set_response_filter)
  have rt: "response_times ?ms = map ?f ?is" by (rule response_times_filter)
  have len: "length (response_times ?ms) = card (spec_response_indices ?ms)"
    unfolding rt length_map using distinct_card [OF d] s by simp
  have sm: "sum_list (response_times ?ms) = (\<Sum>i\<in>spec_response_indices ?ms. ?f i)"
    unfolding rt using sum_list_distinct_conv_sum_set [OF d, of ?f] s by simp
  have e: "response_times ?ms = [] \<longleftrightarrow> spec_response_indices ?ms = {}"
    unfolding rt s [symmetric] by (simp del: set_filter)
  show ?thesis
    unfolding calculate_avg_response_time_def spec_avg_response_time_def Let_def
    using len sm e by simp
qed

lemma ended_simps:
  "messages (ended now c) = messages c"
  "start_time (ended now c) = start_time c"
  "end_time (ended now c) = (if not_end_time (end_time c) then Some now else end_time c)"
  by (simp_all add: ended_def Conversation_end_conversation_def)

lemma ended_fixed: "\<not> not_end_time (end_time c) \<Longrightarrow> ended now c = c"
  by (simp add: ended_def)

lemma calculate_metrics_unfold:
  "calculate_metrics now c =
     (case end_time (ended now c) of
           None \<Rightarrow> (Inl TypeError, ended now c)
         | Some e \<Rightarrow>
             (case calculate_avg_response_length (ended now c) of
                Inl err \<Rightarrow> (Inl err, ended now c)
              | Inr l \<Rightarrow>
                  (Inr \<lparr> total_duration = e - start_time (ended now c),
                             num_turns = length (filter (\<lambda>m. role m = USER) (messages (ended now c))),
                             avg_assistant_response_time = calculate_avg_response_time (ended now c),
                             avg_assistant_response_length = l \<rparr>,
                   ended now c\<lparr>metrics := Some \<lparr> total_duration = e - start_time (ended now c),
                             num_turns = length (filter (\<lambda>m. role m = USER) (messages (ended now c))),
                             avg_assistant_response_time = calculate_avg_response_time (ended now c),
                             avg_assistant_response_length = l \<rparr>\<rparr>)))"
  unfolding calculate_metrics_def ended_def [symmetric] Let_def ..

lemma avg_time_messages:
  "messages c' = messages c \<Longrightarrow> calculate_avg_response_time c' = calculate_avg_response_time c"
  by (simp add: calculate_avg_response_time_def)

lemma avg_length_messages:
  "messages c' = messages c \<Longrightarrow> calculate_avg_response_length c' = calculate_avg_response_length c"
  by (simp add: calculate_avg_response_length_def)

lemma calc_metrics_Inr:
  assumes "calculate_metrics now c = (Inr m, c')"
  shows "num_turns m = length (filter (\<lambda>x. role x = USER) (messages c))"
    and "metrics c' = Some m"
    and "messages c' = messages c"
    and "avg_assistant_response_time m = calculate_avg_response_time c"
proof -
  obtain e where e: "end_time (ended now c) = Some e"
    using assms unfolding calculate_metrics_unfold by (cases "end_time (ended now c)") simp_all
  obtain l where l: "calculate_avg_response_length (ended now c) = Inr l"
    using assms unfolding calculate_metrics_unfold e
    by (cases "calculate_avg_response_length (ended now c)") simp_all
  define M where "M = \<lparr> total_duration = e - start_time (ended now c),
                 num_turns = length (filter (\<lambda>m. role m = USER) (messages (ended now c))),
                 avg_assistant_response_time = calculate_avg_response_time (ended now c),
                 avg_assistant_response_length = l \<rparr>"
  have eq: "calculate_metrics now c = (Inr M, ended now c\<lparr>metrics := Some M\<rparr>)"
    unfolding calculate_metrics_unfold e l M_def by simp
  have pq: "(Inr M :: error + metrics_dict, ended now c\<lparr>metrics := Some M\<rparr>) = (Inr m, c')"
    using assms unfolding eq .
  from pq have "Inr M = (Inr m :: error + metrics_dict)" by (rule Pair_inject)
  then have mM: "M = m" by simp
  from pq have c'M: "ended now c\<lparr>metrics := Some M\<rparr> = c'" by (rule Pair_inject)
  have m: "m = \<lparr> total_duration = e - start_time (ended now c),
                 num_turns = length (filter (\<lambda>m. role m = USER) (messages (ended now c))),
                 avg_assistant_response_time = calculate_avg_response_time (ended now c),
                 avg_assistant_response_length = l \<rparr>"
    using mM unfolding M_def by (rule sym)
  have c': "c' = ended now c\<lparr>metrics := Some m\<rparr>"
    using c'M unfolding mM by (rule sym)
  show "num_turns m = length (filter (\<lambda>x. role x = USER) (messages c))"
    using m by (simp add: ended_simps)
  show "metrics c' = Some m" using c' by simp
  show "messages c' = messages c" using c' by (simp add: ended_simps)
  show "avg_assistant_response_time m = calculate_avg_response_time c"
    using m avg_time_messages [of "ended now c" c] by (simp add: ended_simps)
qed


lemma calculate_metrics_metrics_irrelevant:
  "calculate_metrics now (c\<lparr>metrics := x\<rparr>) =
     (fst (calculate_metrics now c),
      (snd (calculate_metrics now c))\<lparr>metrics := (case fst (calculate_metrics now c) of Inl _ \<Rightarrow> x | Inr m \<Rightarrow> Some m)\<rparr>)"
proof -
  have en: "ended now (c\<lparr>metrics := x\<rparr>) = (ended now c)\<lparr>metrics := x\<rparr>"
    by (simp add: ended_def Conversation_end_conversation_def)
  have al: "calculate_avg_response_length ((ended now c)\<lparr>metrics := x\<rparr>) = calculate_avg_response_length (ended now c)"
    by (rule avg_length_messages) simp
  have at: "calculate_avg_response_time ((ended now c)\<lparr>metrics := x\<rparr>) = calculate_avg_response_time (ended now c)"
    by (rule avg_time_messages) simp
  show ?thesis
    unfolding calculate_metrics_unfold en
    by (cases "end_time (ended now c)"; cases "calculate_avg_response_length (ended now c)")
       (simp_all add: al at)
qed

lemma calculate_metrics_twice:
  assumes "now \<noteq> 0 \<or> \<not> not_end_time (end_time c)"
  shows "calculate_metrics now' (snd (calculate_metrics now c)) = calculate_metrics now c"
proof -
  have t: "\<not> not_end_time (end_time (ended now c))"
  proof (cases "not_end_time (end_time c)")
    case True
    with assms have "now \<noteq> 0" by simp
    with True show ?thesis by (simp add: ended_simps not_end_time_def)
  next
    case False
    then show ?thesis by (simp add: ended_simps)
  qed
  have fix1: "ended now' (ended now c) = ended now c" using t by (rule ended_fixed)
  have fix0: "ended now (ended now c) = ended now c" using t by (rule ended_fixed)
  have second: "calculate_metrics now' (ended now c) = calculate_metrics now c"
    unfolding calculate_metrics_unfold fix1 ..
  show ?thesis
  proof (cases "fst (calculate_metrics now c)")
    case (Inl err)
    then have "snd (calculate_metrics now c) = ended now c"
      unfolding calculate_metrics_unfold
      by (cases "end_time (ended now c)"; cases "calculate_avg_response_length (ended now c)") simp_all
    then show ?thesis using second by simp
  next
    case (Inr m)
    have s: "snd (calculate_metrics now c) = ended now c\<lparr>metrics := Some m\<rparr>"
    proof -
      have "calculate_metrics now c = (Inr m, snd (calculate_metrics now c))"
        using Inr by (simp add: prod_eq_iff)
      from calc_metrics_Inr(2) [OF this] have ms: "metrics (snd (calculate_metrics now c)) = Some m" .
      have "snd (calculate_metrics now c) = (ended now c)\<lparr>metrics := metrics (snd (calculate_metrics now c))\<rparr>"
        unfolding calculate_metrics_unfold
        by (cases "end_time (ended now c)"; cases "calculate_avg_response_length (ended now c)") simp_all
      then show ?thesis unfolding ms .
    qed
    have "calculate_metrics now' (ended now c\<lparr>metrics := Some m\<rparr>) =
            (fst (calculate_metrics now c), (snd (calculate_metrics now c))\<lparr>metrics := Some m\<rparr>)"
      unfolding calculate_metrics_metrics_irrelevant second using Inr by simp
    also have "(snd (calculate_metrics now c))\<lparr>metrics := Some m\<rparr> = snd (calculate_metrics now c)"
      unfolding s by simp
    finally show ?thesis unfolding s [symmetric] by simp
  qed
qed

lemma response_lengths_strings:
  "\<forall>r\<in>set rs. \<exists>s. r = PStr s \<Longrightarrow> \<exists>ns. response_lengths rs = Inr ns"
  by (induction rs) auto

lemma calculate_metrics_returns_iff:
  "(\<exists>m c'. calculate_metrics now c = (Inr m, c')) \<longleftrightarrow>
   (\<exists>l. calculate_avg_response_length c = Inr l)"
proof -
  have "end_time (ended now c) \<noteq> None"
    by (cases "end_time c") (simp_all add: ended_simps not_end_time_def)
  then obtain e where e: "end_time (ended now c) = Some e" by blast
  have al: "calculate_avg_response_length (ended now c) = calculate_avg_response_length c"
    by (rule avg_length_messages) (simp add: ended_simps)
  show ?thesis
    unfolding calculate_metrics_unfold e al
    by (cases "calculate_avg_response_length c") simp_all
qed

lemma calculate_metrics_returns:
  assumes "\<forall>x\<in>set (messages c). role x = ASSISTANT \<longrightarrow> (\<exists>s. content x = PStr s)"
  shows "\<exists>m c'. calculate_metrics now c = (Inr m, c')"
proof -
  let ?rs = "map content (filter (\<lambda>m. role m = ASSISTANT) (messages c))"
  have "\<forall>r\<in>set ?rs. \<exists>s. r = PStr s"
    using assms by auto
  then obtain ns where "response_lengths ?rs = Inr ns"
    using response_lengths_strings by blast
  then have "\<exists>l. calculate_avg_response_length c = Inr l"
    by (simp add: calculate_avg_response_length_def Let_def)
  then show ?thesis by (simp only: calculate_metrics_returns_iff)
qed

lemma example_response_times: "response_times (messages example_conversation) = [2, 5]"
  by (simp add: response_times_def example_conversation_def USER_ASSISTANT_neq
        USER_ASSISTANT_neq [symmetric] upt_rec [of 1] upt_rec [of 2] upt_rec [of 3] upt_rec [of 4]
        nth_Cons')

lemma example_calculate_metrics:
  "calculate_metrics 10 example_conversation =
     (Inr example_metrics, example_conversation\<lparr>end_time := Some 10, metrics := Some example_metrics\<rparr>)"
proof -
  have en: "ended 10 example_conversation = example_conversation\<lparr>end_time := Some 10\<rparr>"
    by (simp add: ended_def not_end_time_def example_conversation_def Conversation_end_conversation_def)
  have ms: "messages (example_conversation\<lparr>end_time := Some 10\<rparr>) = messages example_conversation"
    by simp
  have al: "calculate_avg_response_length (example_conversation\<lparr>end_time := Some 10\<rparr>) = Inr (7 / 2)"
    by (simp add: calculate_avg_response_length_def example_conversation_def USER_ASSISTANT_neq
          str_of_def)
  have at: "calculate_avg_response_time (example_conversation\<lparr>end_time := Some 10\<rparr>) = 7 / 2"
    unfolding calculate_avg_response_time_def ms example_response_times by simp
  have nt: "length (filter (\<lambda>m. role m = USER) (messages example_conversation)) = 2"
    by (simp add: example_conversation_def USER_ASSISTANT_neq [symmetric])
  have st: "start_time (example_conversation\<lparr>end_time := Some 10\<rparr>) = 1"
    by (simp add: example_conversation_def)
  show ?thesis
    unfolding calculate_metrics_unfold en
    by (simp add: al at nt st example_metrics_def)
qed

text \<open>
  C2. Whatever the roles of the messages and their order: \<open>calculate_metrics\<close> returns
  metrics exactly when \<open>_calculate_avg_response_length\<close> does not raise, which is the case
  whenever the contents of the assistant messages are strings; and the \<open>num_turns\<close> of the
  metrics it returns, which are the metrics it stores in the conversation, is the number of
  messages whose role is \<open>'user'\<close>.
\<close>

theorem num_turns_counts_user_messages:
  "((\<forall>x\<in>set (messages c). role x = ASSISTANT \<longrightarrow> (\<exists>s. content x = PStr s)) \<longrightarrow>
      (\<exists>m c'. calculate_metrics now c = (Inr m, c') \<and> metrics c' = Some m \<and>
         num_turns m = length (filter (\<lambda>x. role x = USER) (messages c))))
   \<and> ((\<exists>m c'. calculate_metrics now c = (Inr m, c')) \<longleftrightarrow>
        (\<exists>l. calculate_avg_response_length c = Inr l))
   \<and> (\<forall>m c'. calculate_metrics now c = (Inr m, c') \<longrightarrow>
         metrics c' = Some m \<and>
         num_turns m = length (filter (\<lambda>x. role x = USER) (messages c)))"
proof (intro conjI allI impI)
  assume "\<forall>x\<in>set (messages c). role x = ASSISTANT \<longrightarrow> (\<exists>s. content x = PStr s)"
  from calculate_metrics_returns [OF this] obtain m c' where
    r: "calculate_metrics now c = (Inr m, c')" by blast
  from calc_metrics_Inr(1,2) [OF r] r
  show "\<exists>m c'. calculate_metrics now c = (Inr m, c') \<and> metrics c' = Some m \<and>
         num_turns m = length (filter (\<lambda>x. role x = USER) (messages c))"
    by blast
next
  show "(\<exists>m c'. calculate_metrics now c = (Inr m, c')) \<longleftrightarrow>
        (\<exists>l. calculate_avg_response_length c = Inr l)"
    by (rule calculate_metrics_returns_iff)
next
  fix m c' assume r: "calculate_metrics now c = (Inr m, c')"
  show "metrics c' = Some m" by (rule calc_metrics_Inr(2) [OF r])
  show "num_turns m = length (filter (\<lambda>x. role x = USER) (messages c))"
    by (rule calc_metrics_Inr(1) [OF r])
qed

theorem num_turns_counts_user_messages_witness:
  "map content (filter (\<lambda>x. role x = ASSISTANT) (messages example_conversation)) =
     [PStr (str_of ''hello''), PStr (str_of ''ok'')]
   \<and> (\<exists>m c'. calculate_metrics 10 example_conversation = (Inr m, c') \<and> metrics c' = Some m \<and>
         num_turns m = 2)
   \<and> calculate_metrics 10 example_conversation =
       (Inr example_metrics,
        example_conversation\<lparr>end_time := Some 10, metrics := Some example_metrics\<rparr>)
   \<and> num_turns example_metrics = 2"
proof -
  have a: "map content (filter (\<lambda>x. role x = ASSISTANT) (messages example_conversation)) =
     [PStr (str_of ''hello''), PStr (str_of ''ok'')]"
    by (simp add: example_conversation_def USER_ASSISTANT_neq)
  have h: "\<forall>x\<in>set (messages example_conversation).
             role x = ASSISTANT \<longrightarrow> (\<exists>s. content x = PStr s)"
    by (simp add: example_conversation_def)
  have n: "length (filter (\<lambda>x. role x = USER) (messages example_conversation)) = 2"
    by (simp add: example_conversation_def USER_ASSISTANT_neq [symmetric])
  from num_turns_counts_user_messages [of example_conversation 10] h
  have b: "\<exists>m c'. calculate_metrics 10 example_conversation = (Inr m, c') \<and> metrics c' = Some m \<and>
         num_turns m = 2"
    unfolding n by blast
  show ?thesis
    using a b example_calculate_metrics by (simp add: example_metrics_def)
qed

text \<open>
  C3. \<open>calculate_metrics\<close> is idempotent: a second call on the conversation the first call
  left, at any later clock reading \<open>now'\<close>, gives the same result (the same metrics, or the
  same exception) and leaves the conversation as the first call left it. The first call
  must have left an end time that Python does not take for a missing one: the conversation
  was ended before, or the clock did not read exactly \<open>0.0\<close> when the call ended it.
\<close>

theorem calculate_metrics_idempotent:
  assumes "now \<noteq> 0 \<or> \<not> not_end_time (end_time c)"
  shows "calculate_metrics now' (snd (calculate_metrics now c)) = calculate_metrics now c"
  using assms by (rule calculate_metrics_twice)

theorem calculate_metrics_idempotent_witness:
  "(10::real) \<noteq> 0 \<and>
   calculate_metrics 11 (snd (calculate_metrics 10 example_conversation)) =
     (Inr example_metrics, example_conversation\<lparr>end_time := Some 10, metrics := Some example_metrics\<rparr>)"
proof -
  have h: "(10::real) \<noteq> 0 \<or> \<not> not_end_time (end_time example_conversation)" by simp
  show ?thesis
    using calculate_metrics_idempotent [OF h, of 11] example_calculate_metrics by simp
qed

text \<open>
  C4. For every conversation, the value \<open>_calculate_avg_response_time\<close> computes for the
  metric \<open>avg_assistant_response_time\<close> is the arithmetic mean, over the indices \<open>i\<close>
  whose message has role \<open>'assistant'\<close> and whose predecessor has role \<open>'user'\<close>, of the
  difference of the two timestamps, and \<open>0\<close> when there is no such index. Every metrics
  that \<open>calculate_metrics\<close> returns holds this value, and it returns metrics whenever the
  contents of the assistant messages are strings.
\<close>

theorem avg_assistant_response_time_is_mean:
  "calculate_avg_response_time c = spec_avg_response_time (messages c)
   \<and> (if spec_response_indices (messages c) = {} then calculate_avg_response_time c = 0
       else calculate_avg_response_time c =
              (\<Sum>i\<in>spec_response_indices (messages c).
                  timestamp (messages c ! i) - timestamp (messages c ! (i - 1)))
              / real (card (spec_response_indices (messages c))))
   \<and> ((\<forall>x\<in>set (messages c). role x = ASSISTANT \<longrightarrow> (\<exists>s. content x = PStr s)) \<longrightarrow>
        (\<exists>m c'. calculate_metrics now c = (Inr m, c') \<and> metrics c' = Some m \<and>
           avg_assistant_response_time m = spec_avg_response_time (messages c)))
   \<and> (\<forall>m c'. calculate_metrics now c = (Inr m, c') \<longrightarrow>
         avg_assistant_response_time m = spec_avg_response_time (messages c))"
proof (intro conjI allI impI)
  show e: "calculate_avg_response_time c = spec_avg_response_time (messages c)"
    by (rule avg_response_time_refines)
  show "if spec_response_indices (messages c) = {} then calculate_avg_response_time c = 0
       else calculate_avg_response_time c =
              (\<Sum>i\<in>spec_response_indices (messages c).
                  timestamp (messages c ! i) - timestamp (messages c ! (i - 1)))
              / real (card (spec_response_indices (messages c)))"
    unfolding e by (simp add: spec_avg_response_time_def)
  {
    fix m c' assume r: "calculate_metrics now c = (Inr m, c')"
    show "avg_assistant_response_time m = spec_avg_response_time (messages c)"
      using calc_metrics_Inr(4) [OF r] e by simp
  }
  assume "\<forall>x\<in>set (messages c). role x = ASSISTANT \<longrightarrow> (\<exists>s. content x = PStr s)"
  from calculate_metrics_returns [OF this] obtain m c' where
    r: "calculate_metrics now c = (Inr m, c')" by blast
  from calc_metrics_Inr(2,4) [OF r] r e
  show "\<exists>m c'. calculate_metrics now c = (Inr m, c') \<and> metrics c' = Some m \<and>
           avg_assistant_response_time m = spec_avg_response_time (messages c)"
    by auto
qed

theorem avg_assistant_response_time_is_mean_witness:
  "map content (filter (\<lambda>x. role x = ASSISTANT) (messages example_conversation)) =
     [PStr (str_of ''hello''), PStr (str_of ''ok'')]
   \<and> calculate_avg_response_time example_conversation = 7 / 2
   \<and> spec_avg_response_time (messages example_conversation) = 7 / 2
   \<and> (\<exists>m c'. calculate_metrics 10 example_conversation = (Inr m, c') \<and> metrics c' = Some m \<and>
         avg_assistant_response_time m = 7 / 2)
   \<and> calculate_metrics 10 example_conversation =
       (Inr example_metrics,
        example_conversation\<lparr>end_time := Some 10, metrics := Some example_metrics\<rparr>)
   \<and> avg_assistant_response_time example_metrics = 7 / 2"
proof -
  have a: "map content (filter (\<lambda>x. role x = ASSISTANT) (messages example_conversation)) =
     [PStr (str_of ''hello''), PStr (str_of ''ok'')]"
    by (simp add: example_conversation_def USER_ASSISTANT_neq)
  have h: "\<forall>x\<in>set (messages example_conversation).
             role x = ASSISTANT \<longrightarrow> (\<exists>s. content x = PStr s)"
    by (simp add: example_conversation_def)
  have v: "calculate_avg_response_time example_conversation = 7 / 2"
    unfolding calculate_avg_response_time_def example_response_times by simp
  note t = avg_assistant_response_time_is_mean [of example_conversation 10]
  from t v have sp: "spec_avg_response_time (messages example_conversation) = 7 / 2" by simp
  from t h have b: "\<exists>m c'. calculate_metrics 10 example_conversation = (Inr m, c') \<and>
         metrics c' = Some m \<and> avg_assistant_response_time m = 7 / 2"
    unfolding sp by blast
  show ?thesis
    using a v sp b example_calculate_metrics by (simp add: example_metrics_def)
qed

section \<open>Properties of the conversation store\<close>

lemma update_entries:
  "(a, b) \<in> set (AList.update k v xs) \<Longrightarrow> (a, b) = (k, v) \<or> (a, b) \<in> set xs"
  by (induction xs) (auto split: if_splits)

lemma update_keys: "fst ` set (AList.update k v xs) = insert k (fst ` set xs)"
  by (simp add: dom_update)

lemma save_loop_keys:
  "save_loop ev d k cs = (r, k', cs') \<Longrightarrow> map fst cs' = map fst cs"
proof (induction cs arbitrary: k r k' cs')
  case Nil
  then show ?case by simp
next
  case (Cons p cs)
  obtain cid c where p: "p = (cid, c)" by (cases p)
  from Cons.prems show ?case
    unfolding p
    by (auto simp: Let_def split: prod.splits sum.splits dest: Cons.IH)
qed

lemma summary_rows_keys:
  "summary_rows ev k cs = (r, k', cs') \<Longrightarrow> map fst cs' = map fst cs"
proof (induction cs arbitrary: k r k' cs')
  case Nil
  then show ?case by simp
next
  case (Cons p cs)
  obtain cid c where p: "p = (cid, c)" by (cases p)
  from Cons.prems show ?case
    unfolding p
    by (auto simp: Let_def split: prod.splits sum.splits if_splits dest: Cons.IH)
qed

lemma create_summary_csv_keys:
  "create_summary_csv ev d k cs = (r, k', cs') \<Longrightarrow> map fst cs' = map fst cs"
  by (auto simp: create_summary_csv_def Let_def split: prod.splits sum.splits if_splits
           dest: summary_rows_keys)

lemma save_all_keys:
  "map fst (conversations (snd (snd (save_all_conversations ev d k mgr)))) = map fst (conversations mgr)"
  by (auto simp add: save_all_conversations_def split: prod.splits sum.splits
        dest!: save_loop_keys create_summary_csv_keys)

lemma save_all_current:
  "current_conversation_ids (snd (snd (save_all_conversations ev d k mgr))) = current_conversation_ids mgr"
  by (simp add: save_all_conversations_def split: prod.splits sum.splits)

lemma store_invariant_mono:
  assumes "store_invariant mgr"
    and "current_conversation_ids mgr' = current_conversation_ids mgr"
    and "fst ` set (conversations mgr) \<subseteq> fst ` set (conversations mgr')"
  shows "store_invariant mgr'"
  unfolding store_invariant_def
proof (intro allI impI)
  fix api cid
  assume "(api, Some cid) \<in> set (current_conversation_ids mgr')"
  then have "(api, Some cid) \<in> set (current_conversation_ids mgr)"
    by (simp only: assms(2))
  with assms(1) have "cid \<in> fst ` set (conversations mgr)"
    unfolding store_invariant_def by (elim allE impE) assumption
  with assms(3) show "cid \<in> fst ` set (conversations mgr')" by (rule subsetD)
qed

lemma store_invariant_init: "store_invariant init_manager"
  by (simp add: store_invariant_def init_manager_def)

lemma store_invariant_register:
  "store_invariant mgr \<Longrightarrow> store_invariant (register_conversation cid c mgr)"
  by (rule store_invariant_mono [of mgr]) (auto simp: register_conversation_def update_keys)

lemma store_invariant_set_current:
  assumes "store_invariant mgr" and "cid \<in> fst ` set (conversations mgr)"
  shows "store_invariant (set_current api cid mgr)"
  unfolding store_invariant_def
proof (intro allI impI)
  fix a b
  assume "(a, Some b) \<in> set (current_conversation_ids (set_current api cid mgr))"
  then have "(a, Some b) \<in> set (AList.update api (Some cid) (current_conversation_ids mgr))"
    by (simp add: set_current_def)
  from update_entries [OF this]
  have "b = cid \<or> (a, Some b) \<in> set (current_conversation_ids mgr)" by auto
  then have "b \<in> fst ` set (conversations mgr)"
  proof
    assume "b = cid"
    then show ?thesis using assms(2) by simp
  next
    assume "(a, Some b) \<in> set (current_conversation_ids mgr)"
    with assms(1) show ?thesis
      unfolding store_invariant_def by (elim allE impE) assumption
  qed
  then show "b \<in> fst ` set (conversations (set_current api cid mgr))"
    by (simp add: set_current_def)
qed

lemma register_conversation_key:
  "cid \<in> fst ` set (conversations (register_conversation cid c mgr))"
  by (simp add: register_conversation_def update_keys)

lemma register_conversation_get:
  "get_conversation cid (register_conversation cid c mgr) = Some c"
  by (simp add: get_conversation_def register_conversation_def update_conv')

lemma start_conversation_unfold:
  "start_conversation new_id now api mdl mgr =
     (new_id, set_current api new_id
                (register_conversation new_id (new_conversation new_id now api mdl) mgr))"
  by (simp add: start_conversation_def Let_def)

lemma set_current_lookup:
  "map_of (current_conversation_ids (set_current api cid mgr)) api = Some (Some cid)"
  by (simp add: set_current_def update_conv')

lemma store_invariant_start:
  "store_invariant mgr \<Longrightarrow> store_invariant (snd (start_conversation new_id now api mdl mgr))"
  unfolding start_conversation_unfold snd_conv
  by (intro store_invariant_set_current store_invariant_register register_conversation_key)

lemma store_invariant_update:
  "store_invariant mgr \<Longrightarrow>
   store_invariant (mgr\<lparr>conversations := AList.update cid c (conversations mgr)\<rparr>)"
  by (rule store_invariant_mono [of mgr]) (auto simp: update_keys)

lemma store_invariant_add:
  "store_invariant mgr \<Longrightarrow> store_invariant (snd (Manager_add_message cid msg mgr))"
  by (cases "map_of (conversations mgr) cid")
     (simp_all add: Manager_add_message_def store_invariant_update)

lemma store_invariant_end:
  "store_invariant mgr \<Longrightarrow> store_invariant (snd (Manager_end_conversation now cid mgr))"
  by (cases "map_of (conversations mgr) cid")
     (simp_all add: Manager_end_conversation_def store_invariant_update)

lemma store_invariant_save:
  assumes "store_invariant mgr"
  shows "store_invariant (snd (snd (save_all_conversations ev d k mgr)))"
proof (rule store_invariant_mono [OF assms])
  show "current_conversation_ids (snd (snd (save_all_conversations ev d k mgr))) =
          current_conversation_ids mgr"
    by (rule save_all_current)
  have "set (map fst (conversations (snd (snd (save_all_conversations ev d k mgr))))) =
          set (map fst (conversations mgr))"
    by (simp only: save_all_keys)
  then show "fst ` set (conversations mgr)
               \<subseteq> fst ` set (conversations (snd (snd (save_all_conversations ev d k mgr))))"
    by simp
qed

lemma store_invariant_step:
  "step mgr mgr' \<Longrightarrow> store_invariant mgr \<Longrightarrow> store_invariant mgr'"
  by (induction rule: step.induct)
     (simp_all add: store_invariant_start store_invariant_add store_invariant_end
        store_invariant_save store_invariant_update)

lemma store_invariant_reachable_aux: "reachable mgr \<Longrightarrow> store_invariant mgr"
proof (induction rule: reachable.induct)
  case reachable_init
  show ?case by (rule store_invariant_init)
next
  case (reachable_step mgr mgr')
  from reachable_step.hyps(2) reachable_step.IH show ?case by (rule store_invariant_step)
qed

lemma add_message_present:
  assumes "get_conversation cid mgr = Some c"
  shows "fst (Manager_add_message cid msg mgr) = True"
    and "get_conversation cid (snd (Manager_add_message cid msg mgr))
           = Some (c\<lparr>messages := messages c @ [msg]\<rparr>)"
    and "cid' \<noteq> cid \<Longrightarrow> get_conversation cid' (snd (Manager_add_message cid msg mgr))
           = get_conversation cid' mgr"
    and "map fst (conversations (snd (Manager_add_message cid msg mgr))) = map fst (conversations mgr)"
    and "current_conversation_ids (snd (Manager_add_message cid msg mgr)) = current_conversation_ids mgr"
proof -
  from assms have m: "map_of (conversations mgr) cid = Some c" by (simp add: get_conversation_def)
  from map_of_SomeD [OF m] have "(cid, c) \<in> set (conversations mgr)" .
  then have k: "cid \<in> fst ` set (conversations mgr)" by force
  show "fst (Manager_add_message cid msg mgr) = True" using m by (simp add: Manager_add_message_def)
  show "get_conversation cid (snd (Manager_add_message cid msg mgr))
           = Some (c\<lparr>messages := messages c @ [msg]\<rparr>)"
    using m by (simp add: Manager_add_message_def get_conversation_def update_conv'
          Conversation_add_message_def)
  show "cid' \<noteq> cid \<Longrightarrow> get_conversation cid' (snd (Manager_add_message cid msg mgr))
           = get_conversation cid' mgr"
    using m by (simp add: Manager_add_message_def get_conversation_def update_conv')
  show "map fst (conversations (snd (Manager_add_message cid msg mgr))) = map fst (conversations mgr)"
    using m k by (simp add: Manager_add_message_def AList.update_keys)
  show "current_conversation_ids (snd (Manager_add_message cid msg mgr)) = current_conversation_ids mgr"
    using m by (simp add: Manager_add_message_def)
qed

lemma add_message_absent:
  "get_conversation cid mgr = None \<Longrightarrow> Manager_add_message cid msg mgr = (False, mgr)"
  by (simp add: Manager_add_message_def get_conversation_def)

lemma example_manager_get:
  "get_conversation (str_of ''c1'') example_manager =
     Some (new_conversation (str_of ''c1'') 1 (str_of ''openai'') (str_of ''gpt-4.1''))"
  unfolding example_manager_def start_conversation_unfold snd_conv
  by (simp add: set_current_def register_conversation_def get_conversation_def update_conv')

lemma example_manager_get_absent:
  "get_conversation (str_of ''c2'') example_manager = None"
  unfolding example_manager_def start_conversation_unfold snd_conv
  by (simp add: set_current_def register_conversation_def get_conversation_def init_manager_def
        str_of_def)

text \<open>
  C9. \<open>ConversationManager.add_message\<close> has no failing path: its result is a boolean
  and the store. For an identifier that is a key of the store it returns \<open>True\<close>, the
  conversation of that key has the message appended, and every other conversation, the
  keys and the current-conversation slots are as before; for an identifier that is not a
  key it returns \<open>False\<close> and the store is unchanged.
\<close>

theorem add_message_soft_fails:
  "(\<forall>c. get_conversation cid mgr = Some c \<longrightarrow>
      fst (Manager_add_message cid msg mgr) = True \<and>
      get_conversation cid (snd (Manager_add_message cid msg mgr))
        = Some (c\<lparr>messages := messages c @ [msg]\<rparr>) \<and>
      (\<forall>cid'. cid' \<noteq> cid \<longrightarrow>
         get_conversation cid' (snd (Manager_add_message cid msg mgr)) = get_conversation cid' mgr) \<and>
      map fst (conversations (snd (Manager_add_message cid msg mgr))) = map fst (conversations mgr) \<and>
      current_conversation_ids (snd (Manager_add_message cid msg mgr)) = current_conversation_ids mgr)
   \<and> (get_conversation cid mgr = None \<longrightarrow> Manager_add_message cid msg mgr = (False, mgr))"
proof (intro conjI allI impI)
  fix c assume c: "get_conversation cid mgr = Some c"
  show "fst (Manager_add_message cid msg mgr) = True" by (rule add_message_present(1) [OF c])
  show "get_conversation cid (snd (Manager_add_message cid msg mgr))
        = Some (c\<lparr>messages := messages c @ [msg]\<rparr>)" by (rule add_message_present(2) [OF c])
  show "map fst (conversations (snd (Manager_add_message cid msg mgr))) = map fst (conversations mgr)"
    by (rule add_message_present(4) [OF c])
  show "current_conversation_ids (snd (Manager_add_message cid msg mgr)) = current_conversation_ids mgr"
    by (rule add_message_present(5) [OF c])
  fix cid' assume "cid' \<noteq> cid"
  then show "get_conversation cid' (snd (Manager_add_message cid msg mgr)) = get_conversation cid' mgr"
    by (rule add_message_present(3) [OF c])
next
  assume "get_conversation cid mgr = None"
  then show "Manager_add_message cid msg mgr = (False, mgr)" by (rule add_message_absent)
qed

theorem add_message_soft_fails_witness:
  "get_conversation (str_of ''c1'') example_manager =
     Some (new_conversation (str_of ''c1'') 1 (str_of ''openai'') (str_of ''gpt-4.1''))
   \<and> fst (Manager_add_message (str_of ''c1'') example_message example_manager) = True
   \<and> get_conversation (str_of ''c1'')
         (snd (Manager_add_message (str_of ''c1'') example_message example_manager))
       = Some ((new_conversation (str_of ''c1'') 1 (str_of ''openai'') (str_of ''gpt-4.1''))
                 \<lparr>messages := [example_message]\<rparr>)
   \<and> get_conversation (str_of ''c2'') example_manager = None
   \<and> Manager_add_message (str_of ''c2'') example_message example_manager = (False, example_manager)"
  using add_message_soft_fails [of "str_of ''c1''" example_manager example_message]
    add_message_soft_fails [of "str_of ''c2''" example_manager example_message]
    example_manager_get example_manager_get_absent
  by (simp add: new_conversation_def)

text \<open>
  C10. The store invariant holds initially, every step of the store preserves it (the
  operations of the manager, and changes made to a conversation through a handle), so it
  holds in every reachable state. \<open>start_conversation\<close> first registers the new
  conversation, which keeps the invariant and makes the identifier a key, and then points
  the backend's slot at it.
\<close>

theorem store_invariant_holds:
  "store_invariant init_manager
   \<and> (\<forall>mgr mgr'. store_invariant mgr \<longrightarrow> step mgr mgr' \<longrightarrow> store_invariant mgr')
   \<and> (\<forall>mgr. reachable mgr \<longrightarrow> store_invariant mgr)
   \<and> (\<forall>mgr new_id now api mdl. store_invariant mgr \<longrightarrow>
         store_invariant (register_conversation new_id (new_conversation new_id now api mdl) mgr)
         \<and> get_conversation new_id
               (register_conversation new_id (new_conversation new_id now api mdl) mgr)
             = Some (new_conversation new_id now api mdl)
         \<and> start_conversation new_id now api mdl mgr =
               (new_id, set_current api new_id
                  (register_conversation new_id (new_conversation new_id now api mdl) mgr))
         \<and> map_of (current_conversation_ids (snd (start_conversation new_id now api mdl mgr))) api
               = Some (Some new_id)
         \<and> get_conversation new_id (snd (start_conversation new_id now api mdl mgr))
               = Some (new_conversation new_id now api mdl)
         \<and> store_invariant (snd (start_conversation new_id now api mdl mgr)))"
proof (intro conjI allI impI)
  show "store_invariant init_manager" by (rule store_invariant_init)
next
  fix mgr mgr' assume "store_invariant mgr" "step mgr mgr'"
  then show "store_invariant mgr'" by (rule store_invariant_step [rotated])
next
  fix mgr assume "reachable mgr"
  then show "store_invariant mgr" by (rule store_invariant_reachable_aux)
next
  fix mgr new_id now api mdl assume inv: "store_invariant mgr"
  show "store_invariant (register_conversation new_id (new_conversation new_id now api mdl) mgr)"
    using inv by (rule store_invariant_register)
  show "get_conversation new_id
               (register_conversation new_id (new_conversation new_id now api mdl) mgr)
             = Some (new_conversation new_id now api mdl)"
    by (rule register_conversation_get)
  show "start_conversation new_id now api mdl mgr =
               (new_id, set_current api new_id
                  (register_conversation new_id (new_conversation new_id now api mdl) mgr))"
    by (rule start_conversation_unfold)
  show "map_of (current_conversation_ids (snd (start_conversation new_id now api mdl mgr))) api
               = Some (Some new_id)"
    unfolding start_conversation_unfold snd_conv by (rule set_current_lookup)
  show "get_conversation new_id (snd (start_conversation new_id now api mdl mgr))
               = Some (new_conversation new_id now api mdl)"
    unfolding start_conversation_unfold snd_conv
    by (simp add: set_current_def register_conversation_def get_conversation_def update_conv')
  show "store_invariant (snd (start_conversation new_id now api mdl mgr))"
    using inv by (rule store_invariant_start)
qed

theorem store_invariant_holds_witness:
  "reachable example_manager \<and> store_invariant example_manager
   \<and> map_of (current_conversation_ids example_manager) (str_of ''openai'') = Some (Some (str_of ''c1''))
   \<and> get_conversation (str_of ''c1'') example_manager =
        Some (new_conversation (str_of ''c1'') 1 (str_of ''openai'') (str_of ''gpt-4.1''))"
proof -
  have r: "reachable example_manager"
    unfolding example_manager_def by (rule reachable_step [OF reachable_init step_start])
  have i: "store_invariant init_manager" by (rule store_invariant_holds [THEN conjunct1])
  show ?thesis
    using r i store_invariant_holds unfolding example_manager_def by blast
qed

section \<open>Properties of the evaluator\<close>


lemma intersection_size_card: "intersection_size xs ys = card (set xs \<inter> set ys)"
proof -
  have "distinct (filter (\<lambda>w. w \<in> set ys) (remdups xs))" by simp
  from distinct_card [OF this]
  have "length (filter (\<lambda>w. w \<in> set ys) (remdups xs)) = card (set (filter (\<lambda>w. w \<in> set ys) (remdups xs)))"
    by simp
  also have "set (filter (\<lambda>w. w \<in> set ys) (remdups xs)) = set xs \<inter> set ys" by auto
  finally show ?thesis by (simp add: intersection_size_def)
qed

lemma intersection_size_le: "intersection_size xs ys \<le> length (remdups xs)"
  by (simp add: intersection_size_def)

lemma overlap_card:
  "overlap xs ys = real (card (set xs \<inter> set ys)) / real (max 1 (card (set xs)))"
  by (simp add: overlap_def intersection_size_card length_remdups_card_conv)

lemma overlap_bounds: "0 \<le> overlap xs ys \<and> overlap xs ys \<le> 1"
proof -
  have "intersection_size xs ys \<le> max 1 (length (remdups xs))"
    using intersection_size_le [of xs ys] by simp
  then have "real (intersection_size xs ys) \<le> real (max 1 (length (remdups xs)))"
    by (simp only: of_nat_le_iff)
  moreover have "0 < real (max 1 (length (remdups xs)))" by simp
  ultimately show ?thesis unfolding overlap_def by (simp add: divide_le_eq_1)
qed

lemma length_factor_bounds: "0 \<le> length_factor n \<and> length_factor n \<le> 1"
proof -
  have a: "0 \<le> min 1 (real n / 1000)" "min 1 (real n / 1000) \<le> 1" by simp_all
  have b: "0 \<le> min 1 (5000 / real (max 1 n))" "min 1 (5000 / real (max 1 n)) \<le> 1" by simp_all
  show ?thesis unfolding length_factor_def
    using a b by (simp add: mult_le_one)
qed

lemma length_factor_penalty: "length_factor n < 1 \<longleftrightarrow> n < 1000 \<or> 5000 < n"
proof (cases "n < 1000")
  case True
  then have "min 1 (real n / 1000) = real n / 1000" "real n / 1000 < 1" by simp_all
  moreover have "min 1 (5000 / real (max 1 n)) = 1" using True by (simp add: min_def)
  ultimately show ?thesis using True by (simp add: length_factor_def)
next
  case False
  then have a: "min 1 (real n / 1000) = 1" by (simp add: min_def)
  show ?thesis
  proof (cases "5000 < n")
    case True
    then have "5000 / real (max 1 n) < 1" by simp
    then show ?thesis using True a by (simp add: length_factor_def min_def)
  next
    case f: False
    then have "1 \<le> 5000 / real (max 1 n)" using False by (simp add: le_divide_eq)
    then show ?thesis using f False a by (simp add: length_factor_def min_def)
  qed
qed

lemma relevance_value:
  "evaluate_relevance lower (PStr p) (PStr r) =
     Inr (0.7 + 0.3 * overlap (tokenize (lower p)) (tokenize (lower r)) * length_factor (length r))"
proof -
  let ?o = "overlap (tokenize (lower p)) (tokenize (lower r))"
  let ?l = "length_factor (length r)"
  have o: "0 \<le> ?o" "?o \<le> 1" using overlap_bounds by simp_all
  have l: "0 \<le> ?l" "?l \<le> 1" using length_factor_bounds by simp_all
  have p0: "0 \<le> ?o * ?l" using o l by simp
  have p1: "?o * ?l \<le> 1" using o l by (simp add: mult_le_one)
  have "min 1 (max 0 (0.7 + 0.3 * ?o * ?l)) = 0.7 + 0.3 * ?o * ?l"
    using p0 p1 by (simp add: min_def max_def)
  then show ?thesis by (simp add: evaluate_relevance_def Let_def)
qed


lemma split_ws_aux_spaces:
  "split_ws_aux cur (replicate n 32) = (if cur = [] then [] else [rev cur])"
  by (induction n arbitrary: cur) (simp_all add: isspace_def)

lemma example_response_length: "length example_response = 500"
  by (simp add: example_response_def)

lemma replace_char_example:
  "old \<noteq> 97 \<Longrightarrow> old \<noteq> 32 \<Longrightarrow> replace_char old new example_response = example_response"
  by (simp add: replace_char_def example_response_def)

lemma ascii_lower_example: "ascii_lower example_response = example_response"
  by (simp add: ascii_lower_def example_response_def)

lemma tokenize_example_response: "tokenize (ascii_lower example_response) = [[97]]"
proof -
  have "tokenize example_response = split_ws example_response"
    by (simp add: tokenize_def replace_char_example)
  also have "\<dots> = [[97]]"
    by (simp add: split_ws_def example_response_def isspace_def split_ws_aux_spaces)
  finally show ?thesis by (simp add: ascii_lower_example)
qed

lemma tokenize_example_prompt: "tokenize (ascii_lower example_prompt) = [[97]]"
  by (simp add: tokenize_def replace_char_def ascii_lower_def example_prompt_def split_ws_def isspace_def)

lemma length_factor_500: "length_factor 500 = 1 / 2"
  by (simp add: length_factor_def)

lemma example_relevance:
  "evaluate_relevance ascii_lower (PStr example_prompt) (PStr example_response) = Inr (17 / 20)"
  unfolding relevance_value tokenize_example_response tokenize_example_prompt example_response_length
    length_factor_500
  by (simp add: overlap_def intersection_size_def)

lemma clamp_half: "(1 / 2 :: real) \<le> min 1 (max 0.5 x) \<and> min 1 (max 0.5 x) \<le> 1"
  by (simp add: min_def max_def)

lemma accuracy_bounds:
  "1 / 2 \<le> evaluate_accuracy lower p r \<and> evaluate_accuracy lower p r \<le> 1"
  unfolding evaluate_accuracy_def Let_def by (rule clamp_half)

lemma creativity_bounds:
  "1 / 2 \<le> evaluate_creativity lower r \<and> evaluate_creativity lower r \<le> 1"
  unfolding evaluate_creativity_def Let_def by (rule clamp_half)

lemma completeness_bounds:
  "3 / 10 \<le> evaluate_completeness p r \<and> evaluate_completeness p r \<le> 1"
proof -
  have "0 \<le> min 1 (real (length r) / 500)" by simp
  then show ?thesis
    unfolding evaluate_completeness_def Let_def by (simp add: min_def)
qed

lemma coherence_bounds:
  assumes "evaluate_coherence lower p r context = Inr coh"
  shows "4 / 5 \<le> coh \<and> coh \<le> 1"
proof -
  define ps where "ps = min 1 (real (length (py_split [10, 10] r)) / 3) * (0.1::real)"
  define cs where "cs = min (0.1::real) (real (count_phrases connectors (lower r)) * 0.02)"
  have ps: "0 \<le> ps" unfolding ps_def by simp
  have cs: "0 \<le> cs" unfolding cs_def by simp
  obtain x where x: "0 \<le> x" and coh: "coh = min 1 (0.8 + ps + cs + x)"
  proof (cases "context = []")
    case True
    with assms have "coh = min 1 (0.8 + ps + cs + 0)"
      by (simp add: evaluate_coherence_def Let_def ps_def cs_def)
    then show ?thesis using that [of 0] by simp
  next
    case False
    with assms obtain a b where
      "coh = min 1 (0.8 + ps + cs +
          real (intersection_size (tokenize (lower (a @ [32] @ b))) (tokenize (lower r)))
            / real (max 1 (length (remdups (tokenize (lower r))))) * 0.1)"
      by (auto simp: evaluate_coherence_def Let_def ps_def cs_def split: sum.splits)
    then show ?thesis
      using that [of "real (intersection_size (tokenize (lower (a @ [32] @ b))) (tokenize (lower r)))
            / real (max 1 (length (remdups (tokenize (lower r))))) * 0.1"] by simp
  qed
  show ?thesis using ps cs x unfolding coh by (simp add: min_def)
qed

lemma tokenize_single_b: "tokenize (ascii_lower [98]) = [[98]]"
  by (simp add: tokenize_def replace_char_def ascii_lower_def split_ws_def isspace_def)

lemma tokenize_single_a: "tokenize (ascii_lower [97]) = [[97]]"
  by (simp add: tokenize_def replace_char_def ascii_lower_def split_ws_def isspace_def)

text \<open>
  C7, as the code has it. The relevance of a response to a prompt, both strings, is
  \<open>0.7 + 0.3 * overlap * length_factor\<close>, where the overlap is the number of distinct
  tokens of the prompt that are tokens of the response over the number of distinct tokens
  of the prompt (at least 1), and the length factor is
  \<open>min(1, len / 1000) * min(1, 5000 / max(1, len))\<close>: it lies in \<open>[0, 1]\<close> and is below 1
  exactly for a response shorter than 1000 characters or longer than 5000. The score lies
  in \<open>[0.7, 1]\<close>, so the clamp to \<open>[0, 1]\<close> never changes it, and it is exactly \<open>0.7\<close>
  when prompt and response share no token.
\<close>

theorem relevance_formula:
  "evaluate_relevance lower (PStr p) (PStr r) =
     Inr (0.7 + 0.3 * (real (card (set (tokenize (lower p)) \<inter> set (tokenize (lower r))))
                        / real (max 1 (card (set (tokenize (lower p))))))
                    * length_factor (length r))
   \<and> length_factor (length r) =
         min 1 (real (length r) / 1000) * min 1 (5000 / real (max 1 (length r)))
   \<and> 0 \<le> length_factor (length r) \<and> length_factor (length r) \<le> 1
   \<and> (length_factor (length r) < 1 \<longleftrightarrow> length r < 1000 \<or> 5000 < length r)
   \<and> (\<exists>x. evaluate_relevance lower (PStr p) (PStr r) = Inr x \<and> 7 / 10 \<le> x \<and> x \<le> 1)
   \<and> (set (tokenize (lower p)) \<inter> set (tokenize (lower r)) = {}
        \<longrightarrow> evaluate_relevance lower (PStr p) (PStr r) = Inr (7 / 10))"
proof -
  let ?o = "overlap (tokenize (lower p)) (tokenize (lower r))"
  let ?l = "length_factor (length r)"
  have o: "0 \<le> ?o" "?o \<le> 1" using overlap_bounds by simp_all
  have l: "0 \<le> ?l" "?l \<le> 1" using length_factor_bounds by simp_all
  have p0: "0 \<le> ?o * ?l" using o l by simp
  have p1: "?o * ?l \<le> 1" using o l by (simp add: mult_le_one)
  have v: "evaluate_relevance lower (PStr p) (PStr r) = Inr (0.7 + 0.3 * ?o * ?l)"
    by (rule relevance_value)
  have c1: "evaluate_relevance lower (PStr p) (PStr r) =
     Inr (0.7 + 0.3 * (real (card (set (tokenize (lower p)) \<inter> set (tokenize (lower r))))
                        / real (max 1 (card (set (tokenize (lower p))))))
                    * length_factor (length r))"
    unfolding v overlap_card ..
  have c5: "\<exists>x. evaluate_relevance lower (PStr p) (PStr r) = Inr x \<and> 7 / 10 \<le> x \<and> x \<le> 1"
  proof -
    have e: "0.7 + 0.3 * ?o * ?l = 7 / 10 + 3 / 10 * (?o * ?l)" by simp
    have "7 / 10 \<le> 7 / 10 + 3 / 10 * (?o * ?l)" using p0 by simp
    moreover have "7 / 10 + 3 / 10 * (?o * ?l) \<le> 1" using p1 by simp
    ultimately show ?thesis unfolding v e by blast
  qed
  have c6: "set (tokenize (lower p)) \<inter> set (tokenize (lower r)) = {}
        \<longrightarrow> evaluate_relevance lower (PStr p) (PStr r) = Inr (7 / 10)"
    unfolding v overlap_card by simp
  show ?thesis
    using c1 c5 c6 l length_factor_penalty [of "length r"]
    by (simp only: length_factor_def [symmetric] simp_thms)
qed

theorem relevance_formula_witness:
  "set (tokenize (ascii_lower [97])) \<inter> set (tokenize (ascii_lower [98])) = {}
   \<and> evaluate_relevance ascii_lower (PStr [97]) (PStr [98]) = Inr (7 / 10)"
  using relevance_formula [of ascii_lower "[97]" "[98]"]
  by (simp add: tokenize_single_a tokenize_single_b)

text \<open>
  The claim as stated fails: a response of 500 characters is neither shorter than 200
  characters nor longer than 5000, and its length factor is \<open>1 / 2\<close>; with a prompt whose
  only token it contains, its relevance is \<open>0.85\<close> where no penalty would give \<open>1\<close>.
\<close>

theorem relevance_penalty_counterexample:
  "length example_response = 500
   \<and> \<not> length example_response < 200 \<and> \<not> 5000 < length example_response
   \<and> length_factor (length example_response) = 1 / 2
   \<and> overlap (tokenize (ascii_lower example_prompt)) (tokenize (ascii_lower example_response)) = 1
   \<and> evaluate_relevance ascii_lower (PStr example_prompt) (PStr example_response) = Inr (17 / 20)"
  by (simp add: example_response_length length_factor_500 example_relevance
        tokenize_example_prompt tokenize_example_response overlap_def intersection_size_def)


lemma evaluate_response_default:
  assumes "evaluate_coherence lower p r context = Inr coh"
  shows "evaluate_response EVALUATION_DIMENSIONS lower (PStr p) (PStr r) context =
     Inr \<lparr> dimensions =
             [(''relevance'',
                 \<lparr> score = 0.7 + 0.3 * overlap (tokenize (lower p)) (tokenize (lower r))
                                   * length_factor (length r), weight = 0.25 \<rparr>),
              (''accuracy'', \<lparr> score = evaluate_accuracy lower p r, weight = 0.25 \<rparr>),
              (''completeness'', \<lparr> score = evaluate_completeness p r, weight = 0.20 \<rparr>),
              (''coherence'', \<lparr> score = coh, weight = 0.15 \<rparr>),
              (''creativity'', \<lparr> score = evaluate_creativity lower r, weight = 0.15 \<rparr>)],
           total_score =
             0 + (0.7 + 0.3 * overlap (tokenize (lower p)) (tokenize (lower r))
                          * length_factor (length r)) * 0.25
               + evaluate_accuracy lower p r * 0.25
               + evaluate_completeness p r * 0.20
               + coh * 0.15
               + evaluate_creativity lower r * 0.15 \<rparr>"
  unfolding evaluate_response_def relevance_value
  by (simp add: assms EVALUATION_DIMENSIONS_def Let_def)

lemma evaluate_response_inverse:
  assumes "evaluate_response dims lower (PStr p) (PStr r) context = Inr res"
  shows "\<exists>coh. evaluate_coherence lower p r context = Inr coh"
  using assms unfolding evaluate_response_def relevance_value
  by (cases "evaluate_coherence lower p r context") simp_all

lemma join_strs_strings:
  "\<forall>x\<in>set xs. \<exists>s. x = PStr s \<Longrightarrow> \<exists>t. join_strs sep xs = Inr t"
  by (induction sep xs rule: join_strs.induct) auto

lemma evaluate_coherence_returns:
  assumes "\<forall>(a, b)\<in>set context. (\<exists>s. a = PStr s) \<and> (\<exists>s. b = PStr s)"
  shows "\<exists>coh. evaluate_coherence lower p r context = Inr coh"
proof -
  have "\<forall>x\<in>set (map snd context). \<exists>s. x = PStr s" using assms by auto
  then obtain t1 where t1: "join_strs [32] (map snd context) = Inr t1"
    using join_strs_strings by blast
  have "\<forall>x\<in>set (map fst context). \<exists>s. x = PStr s" using assms by auto
  then obtain t2 where t2: "join_strs [32] (map fst context) = Inr t2"
    using join_strs_strings by blast
  show ?thesis
    unfolding evaluate_coherence_def Let_def t1 t2 by simp
qed

lemma evaluate_response_returns:
  assumes "\<forall>(a, b)\<in>set context. (\<exists>s. a = PStr s) \<and> (\<exists>s. b = PStr s)"
  shows "\<exists>res. evaluate_response EVALUATION_DIMENSIONS lower (PStr p) (PStr r) context = Inr res"
proof -
  from evaluate_coherence_returns [OF assms] obtain coh
    where "evaluate_coherence lower p r context = Inr coh" by blast
  from evaluate_response_default [OF this] show ?thesis by blast
qed

lemma evaluate_response_props:
  assumes "evaluate_response EVALUATION_DIMENSIONS lower (PStr p) (PStr r) context = Inr res"
  shows "total_score res =
           0.25 * dimension_score res ''relevance'' + 0.25 * dimension_score res ''accuracy''
           + 0.20 * dimension_score res ''completeness'' + 0.15 * dimension_score res ''coherence''
           + 0.15 * dimension_score res ''creativity''"
    and "map (\<lambda>(n, d). (n, weight d)) (dimensions res) = EVALUATION_DIMENSIONS"
    and "0 \<le> total_score res" and "total_score res \<le> 1"
    and "0 \<le> dimension_score res ''relevance''" and "dimension_score res ''relevance'' \<le> 1"
    and "1 / 2 \<le> dimension_score res ''accuracy''" and "dimension_score res ''accuracy'' \<le> 1"
    and "dimension_score res ''completeness'' \<le> 1"
    and "dimension_score res ''coherence'' \<le> 1"
    and "1 / 2 \<le> dimension_score res ''creativity''" and "dimension_score res ''creativity'' \<le> 1"
proof -
  from evaluate_response_inverse [OF assms] obtain coh
    where coh: "evaluate_coherence lower p r context = Inr coh" by blast
  define rel where "rel = 0.7 + 0.3 * overlap (tokenize (lower p)) (tokenize (lower r))
                                   * length_factor (length r)"
  define acc where "acc = evaluate_accuracy lower p r"
  define com where "com = evaluate_completeness p r"
  define cre where "cre = evaluate_creativity lower r"
  have res: "res = \<lparr> dimensions =
             [(''relevance'', \<lparr> score = rel, weight = 0.25 \<rparr>),
              (''accuracy'', \<lparr> score = acc, weight = 0.25 \<rparr>),
              (''completeness'', \<lparr> score = com, weight = 0.20 \<rparr>),
              (''coherence'', \<lparr> score = coh, weight = 0.15 \<rparr>),
              (''creativity'', \<lparr> score = cre, weight = 0.15 \<rparr>)],
           total_score = 0 + rel * 0.25 + acc * 0.25 + com * 0.20 + coh * 0.15 + cre * 0.15 \<rparr>"
    using assms unfolding evaluate_response_default [OF coh] rel_def acc_def com_def cre_def
    by simp
  have d: "dimension_score res ''relevance'' = rel" "dimension_score res ''accuracy'' = acc"
    "dimension_score res ''completeness'' = com" "dimension_score res ''coherence'' = coh"
    "dimension_score res ''creativity'' = cre"
    unfolding res dimension_score_def by simp_all
  have t: "total_score res = 0.25 * rel + 0.25 * acc + 0.20 * com + 0.15 * coh + 0.15 * cre"
    unfolding res by simp
  have "\<exists>x. evaluate_relevance lower (PStr p) (PStr r) = Inr x \<and> 7 / 10 \<le> x \<and> x \<le> 1"
  proof -
    let ?o = "overlap (tokenize (lower p)) (tokenize (lower r))"
    let ?l = "length_factor (length r)"
    have o: "0 \<le> ?o" "?o \<le> 1" using overlap_bounds by simp_all
    have l: "0 \<le> ?l" "?l \<le> 1" using length_factor_bounds by simp_all
    have p0: "0 \<le> ?o * ?l" using o l by simp
    have p1: "?o * ?l \<le> 1" using o l by (simp add: mult_le_one)
    have e: "0.7 + 0.3 * ?o * ?l = 7 / 10 + 3 / 10 * (?o * ?l)" by simp
    have "7 / 10 \<le> 7 / 10 + 3 / 10 * (?o * ?l)" using p0 by simp
    moreover have "7 / 10 + 3 / 10 * (?o * ?l) \<le> 1" using p1 by simp
    ultimately show ?thesis unfolding relevance_value e by blast
  qed
  then have rb: "7 / 10 \<le> rel" "rel \<le> 1" unfolding relevance_value rel_def by simp_all
  have ab: "1 / 2 \<le> acc" "acc \<le> 1" unfolding acc_def using accuracy_bounds by simp_all
  have cb: "3 / 10 \<le> com" "com \<le> 1" unfolding com_def using completeness_bounds by simp_all
  have hb: "4 / 5 \<le> coh" "coh \<le> 1" using coherence_bounds [OF coh] by simp_all
  have eb: "1 / 2 \<le> cre" "cre \<le> 1" unfolding cre_def using creativity_bounds by simp_all
  show "total_score res =
           0.25 * dimension_score res ''relevance'' + 0.25 * dimension_score res ''accuracy''
           + 0.20 * dimension_score res ''completeness'' + 0.15 * dimension_score res ''coherence''
           + 0.15 * dimension_score res ''creativity''"
    unfolding d t ..
  show "map (\<lambda>(n, d). (n, weight d)) (dimensions res) = EVALUATION_DIMENSIONS"
    unfolding res EVALUATION_DIMENSIONS_def by simp
  show "0 \<le> total_score res" unfolding t using rb ab cb hb eb by simp
  show "total_score res \<le> 1" unfolding t using rb ab cb hb eb by simp
  show "0 \<le> dimension_score res ''relevance''" unfolding d using rb by simp
  show "dimension_score res ''relevance'' \<le> 1" unfolding d using rb by simp
  show "1 / 2 \<le> dimension_score res ''accuracy''" unfolding d using ab by simp
  show "dimension_score res ''accuracy'' \<le> 1" unfolding d using ab by simp
  show "dimension_score res ''completeness'' \<le> 1" unfolding d using cb by simp
  show "dimension_score res ''coherence'' \<le> 1" unfolding d using hb by simp
  show "1 / 2 \<le> dimension_score res ''creativity''" unfolding d using eb by simp
  show "dimension_score res ''creativity'' \<le> 1" unfolding d using eb by simp
qed

text \<open>
  C1. For a prompt and a response that are strings, with the default dimensions,
  \<open>evaluate_response\<close> returns a result (with no context it always does), and a result
  lists the five dimensions with the weights 0.25, 0.25, 0.20, 0.15 and 0.15, its
  \<open>total_score\<close> is the sum of the dimension scores times these weights and lies in
  \<open>[0, 1]\<close>, relevance lies in \<open>[0, 1]\<close>, accuracy and creativity in \<open>[0.5, 1]\<close>, and
  completeness and coherence are at most 1.
\<close>

theorem total_score_weighted_sum:
  "(\<exists>res. evaluate_response EVALUATION_DIMENSIONS lower (PStr p) (PStr r) [] = Inr res)
   \<and> (\<forall>ctx res.
         evaluate_response EVALUATION_DIMENSIONS lower (PStr p) (PStr r) ctx = Inr res \<longrightarrow>
         total_score res =
           0.25 * dimension_score res ''relevance'' + 0.25 * dimension_score res ''accuracy''
           + 0.20 * dimension_score res ''completeness'' + 0.15 * dimension_score res ''coherence''
           + 0.15 * dimension_score res ''creativity''
         \<and> map (\<lambda>(n, d). (n, weight d)) (dimensions res) = EVALUATION_DIMENSIONS
         \<and> 0 \<le> total_score res \<and> total_score res \<le> 1
         \<and> 0 \<le> dimension_score res ''relevance'' \<and> dimension_score res ''relevance'' \<le> 1
         \<and> 1 / 2 \<le> dimension_score res ''accuracy'' \<and> dimension_score res ''accuracy'' \<le> 1
         \<and> dimension_score res ''completeness'' \<le> 1
         \<and> dimension_score res ''coherence'' \<le> 1
         \<and> 1 / 2 \<le> dimension_score res ''creativity'' \<and> dimension_score res ''creativity'' \<le> 1)"
proof (intro conjI allI impI)
  have "\<forall>(a, b)\<in>set ([] :: (pyval \<times> pyval) list). (\<exists>s. a = PStr s) \<and> (\<exists>s. b = PStr s)"
    by simp
  from evaluate_response_returns [OF this]
  show "\<exists>res. evaluate_response EVALUATION_DIMENSIONS lower (PStr p) (PStr r) [] = Inr res" .
next
  fix ctx res
  assume a: "evaluate_response EVALUATION_DIMENSIONS lower (PStr p) (PStr r) ctx = Inr res"
  note props = evaluate_response_props [OF a]
  show "total_score res =
           0.25 * dimension_score res ''relevance'' + 0.25 * dimension_score res ''accuracy''
           + 0.20 * dimension_score res ''completeness'' + 0.15 * dimension_score res ''coherence''
           + 0.15 * dimension_score res ''creativity''" by (rule props(1))
  show "map (\<lambda>(n, d). (n, weight d)) (dimensions res) = EVALUATION_DIMENSIONS" by (rule props(2))
  show "0 \<le> total_score res" by (rule props(3))
  show "total_score res \<le> 1" by (rule props(4))
  show "0 \<le> dimension_score res ''relevance''" by (rule props(5))
  show "dimension_score res ''relevance'' \<le> 1" by (rule props(6))
  show "1 / 2 \<le> dimension_score res ''accuracy''" by (rule props(7))
  show "dimension_score res ''accuracy'' \<le> 1" by (rule props(8))
  show "dimension_score res ''completeness'' \<le> 1" by (rule props(9))
  show "dimension_score res ''coherence'' \<le> 1" by (rule props(10))
  show "1 / 2 \<le> dimension_score res ''creativity''" by (rule props(11))
  show "dimension_score res ''creativity'' \<le> 1" by (rule props(12))
qed

theorem total_score_weighted_sum_witness:
  "\<exists>res. evaluate_response EVALUATION_DIMENSIONS ascii_lower (PStr example_prompt)
            (PStr example_response) [] = Inr res
     \<and> total_score res =
           0.25 * dimension_score res ''relevance'' + 0.25 * dimension_score res ''accuracy''
           + 0.20 * dimension_score res ''completeness'' + 0.15 * dimension_score res ''coherence''
           + 0.15 * dimension_score res ''creativity''
     \<and> 0 \<le> total_score res \<and> total_score res \<le> 1
     \<and> dimension_score res ''relevance'' = 17 / 20"
proof -
  from total_score_weighted_sum [of ascii_lower example_prompt example_response] obtain res where
    res: "evaluate_response EVALUATION_DIMENSIONS ascii_lower (PStr example_prompt)
            (PStr example_response) [] = Inr res" by blast
  from evaluate_response_inverse [OF res] obtain coh where
    "evaluate_coherence ascii_lower example_prompt example_response [] = Inr coh" by blast
  from evaluate_response_default [OF this] res
  have "dimension_score res ''relevance'' =
          0.7 + 0.3 * overlap (tokenize (ascii_lower example_prompt))
                        (tokenize (ascii_lower example_response))
                    * length_factor (length example_response)"
    by (auto simp: dimension_score_def)
  then have rel: "dimension_score res ''relevance'' = 17 / 20"
    by (simp add: example_response_length length_factor_500 tokenize_example_prompt
          tokenize_example_response overlap_def intersection_size_def)
  from total_score_weighted_sum [of ascii_lower example_prompt example_response] res
  have "total_score res =
           0.25 * dimension_score res ''relevance'' + 0.25 * dimension_score res ''accuracy''
           + 0.20 * dimension_score res ''completeness'' + 0.15 * dimension_score res ''coherence''
           + 0.15 * dimension_score res ''creativity''
     \<and> 0 \<le> total_score res \<and> total_score res \<le> 1"
    by blast
  then show ?thesis using res rel by blast
qed

section \<open>Properties of the evaluation of a conversation\<close>


lemma range_step2_shift:
  "map (\<lambda>k. a + 2 * k) [0..<Suc n] = a # map (\<lambda>k. (a + 2) + 2 * k) [0..<n]"
  by (simp add: map_upt_Suc del: upt_Suc)

lemma evaluate_turns_pairs_gen:
  "evaluate_turns dims lower repr (pre @ xs)
      (map (\<lambda>k. length pre + 2 * k) [0..<(length xs + 1) div 2]) scores ctx
     = evaluate_pairs dims lower repr xs scores ctx"
proof (induction dims lower repr xs scores ctx arbitrary: pre rule: evaluate_pairs.induct)
  case (1 dims lower repr p r rest scores ctx)
  have n: "(length (p # r # rest) + 1) div 2 = Suc ((length rest + 1) div 2)" by simp
  have i0: "(pre @ p # r # rest) ! length pre = p" by simp
  have i1: "(pre @ p # r # rest) ! (length pre + 1) = r"
    by (simp add: nth_append)
  have lt: "length pre + 1 < length (pre @ p # r # rest)" by simp
  have pre': "pre @ p # r # rest = (pre @ [p, r]) @ rest" by simp
  have len': "length pre + 2 = length (pre @ [p, r])" by simp
  show ?case
  proof (cases "extract_prompt repr (content p)")
    case (Inl e)
    then show ?thesis
      unfolding n range_step2_shift evaluate_turns.simps evaluate_pairs.simps i0 i1
      using lt by simp
  next
    case (Inr prompt)
    note pr = this
    show ?thesis
    proof (cases "evaluate_response dims lower prompt (content r) ctx")
      case (Inl e)
      then show ?thesis
        unfolding n range_step2_shift evaluate_turns.simps evaluate_pairs.simps i0 i1
        using lt pr by simp
    next
      case (Inr sc)
      have "evaluate_turns dims lower repr ((pre @ [p, r]) @ rest)
              (map (\<lambda>k. length (pre @ [p, r]) + 2 * k) [0..<(length rest + 1) div 2])
              (scores @ [sc]) (ctx @ [(prompt, content r)])
            = evaluate_pairs dims lower repr rest (scores @ [sc]) (ctx @ [(prompt, content r)])"
        by (rule "1.IH" [OF pr Inr])
      then show ?thesis
        unfolding n range_step2_shift evaluate_turns.simps evaluate_pairs.simps i0 i1
        unfolding pre' [symmetric] len' [symmetric]
        using lt pr Inr by (simp add: Let_def)
    qed
  qed
next
  case (2 dims lower repr p scores ctx)
  show ?case by simp
next
  case (3 dims lower repr scores ctx)
  show ?case by simp
qed

lemma evaluate_turns_pairs:
  "evaluate_turns dims lower repr ms (range_step2 (length ms)) scores ctx
     = evaluate_pairs dims lower repr ms scores ctx"
  using evaluate_turns_pairs_gen [of dims lower repr "[]" ms scores ctx]
  by (simp add: range_step2_def)






lemma evaluate_conversation_pairs_unfold:
  "evaluate_conversation dims lower repr ms =
     (case evaluate_pairs dims lower repr ms [] [] of
        Inl e \<Rightarrow> Inl e
      | Inr scores \<Rightarrow>
          (if scores \<noteq> []
           then (case average_dimensions_of (map fst dims) scores of
                      Inl e \<Rightarrow> Inl e
                    | Inr avg_dimensions \<Rightarrow>
                        Inr (Evaluated scores (sum_list (map total_score scores) / real (length scores))
                               avg_dimensions))
           else Inr (Error (str_of ''No valid turns to evaluate''))))"
  unfolding evaluate_conversation_def evaluate_turns_pairs Let_def ..



lemma evaluate_conversation_no_turns:
  assumes "length ms \<le> 1"
  shows "evaluate_conversation dims lower repr ms = Inr (Error (str_of ''No valid turns to evaluate''))"
proof (cases ms)
  case Nil
  then show ?thesis unfolding evaluate_conversation_pairs_unfold by simp
next
  case (Cons m rest)
  with assms have "rest = []" by simp
  with Cons show ?thesis unfolding evaluate_conversation_pairs_unfold by simp
qed







lemma structured_response_raises:
  "evaluate_conversation dims lower repr structured_response_messages = Inl AttributeError"
  unfolding evaluate_conversation_pairs_unfold structured_response_messages_def
  by (simp add: evaluate_response_def evaluate_relevance_def structured_content_def)

lemma structured_prompt_extracted:
  "extract_prompt repr structured_content = Inr (PStr (str_of ''hello''))"
  by (simp add: structured_content_def TEXT_def str_of_def)



text \<open>
  C6. A conversation of no message or of one message has no complete pair, and
  \<open>evaluate_conversation\<close> returns the error marker \<open>No valid turns to evaluate\<close>, which
  holds no score.
\<close>

theorem no_valid_turns:
  assumes "length ms \<le> 1"
  shows "evaluate_conversation dims lower repr ms =
           Inr (Error (str_of ''No valid turns to evaluate''))"
  using assms by (rule evaluate_conversation_no_turns)

theorem no_valid_turns_witness:
  "length [example_message] \<le> 1
   \<and> evaluate_conversation EVALUATION_DIMENSIONS ascii_lower (\<lambda>v. []) [example_message] =
       Inr (Error (str_of ''No valid turns to evaluate''))
   \<and> evaluate_conversation EVALUATION_DIMENSIONS ascii_lower (\<lambda>v. []) [] =
       Inr (Error (str_of ''No valid turns to evaluate''))"
proof -
  have a: "length [example_message] \<le> 1" by simp
  have b: "length ([] :: message list) \<le> 1" by simp
  show ?thesis
    using a no_valid_turns [OF a] no_valid_turns [OF b] by blast
qed

text \<open>
  C8. The text parts of a structured content are extracted for the prompt only. With the
  same content as the response, \<open>evaluate_conversation\<close> passes the list on as it is, and
  \<open>_evaluate_relevance\<close> raises \<open>AttributeError\<close> when it calls \<open>.lower()\<close> on it.
\<close>

theorem structured_response_not_extracted:
  "evaluate_conversation dims lower repr structured_response_messages = Inl AttributeError
   \<and> extract_prompt repr structured_content = Inr (PStr (str_of ''hello''))
   \<and> content (structured_response_messages ! 1) = structured_content"
  using structured_response_raises [of dims lower repr] structured_prompt_extracted [of repr]
  by (simp add: structured_response_messages_def)

end
